theory Spec2Isabelle
  imports Complex_Main "HOL-Library.AList" "HOL-Library.Log_Nat"
begin

section \<open>JavaScript values and strings\<close>

text \<open>
  The monitor receives JSON from the gateway and keeps JSON in its store, so the values
  the code inspects at run time are JSON values. A JavaScript number is a finite double; it
  is modelled by the rational it denotes, so that \<^verbatim>\<open>===\<close> on numbers is equality
  (\<^verbatim>\<open>-0 === 0\<close> holds in both), and an operation that rounds is modelled with its
  rounding (section Durations). \<^verbatim>\<open>undefined\<close> is
  \<open>None\<close> of \<open>json option\<close>. An object is the list of its entries in the order
  \<^verbatim>\<open>Object.keys\<close> enumerates them; its keys are distinct. Strings are byte lists
  (UTF-8); the code only concatenates and compares them.
\<close>

datatype json =
    JNull
  | JBool bool
  | JNum rat
  | JStr string
  | JArr "json list"
  | JObj "(string \<times> json) list"

text \<open>remeda's \<^verbatim>\<open>isObjectType\<close>: \<^verbatim>\<open>typeof data === "object" && data !== null\<close>.\<close>

fun isObjectType :: "json option \<Rightarrow> bool" where
  "isObjectType (Some (JArr xs)) = True"
| "isObjectType (Some (JObj kvs)) = True"
| "isObjectType v = False"

text \<open>JavaScript truthiness (\<^verbatim>\<open>!x\<close>, \<^verbatim>\<open>x && ...\<close>, \<^verbatim>\<open>x ? ... : ...\<close>).\<close>

fun truthy :: "json option \<Rightarrow> bool" where
  "truthy None = False"
| "truthy (Some JNull) = False"
| "truthy (Some (JBool b)) = b"
| "truthy (Some (JNum n)) = (n \<noteq> 0)"
| "truthy (Some (JStr s)) = (s \<noteq> [])"
| "truthy (Some (JArr xs)) = True"
| "truthy (Some (JObj kvs)) = True"

text \<open>
  Property access \<^verbatim>\<open>v?.k\<close> for the names the code reads by name (\<^verbatim>\<open>value\<close>,
  \<^verbatim>\<open>isListeningModifiedEvent\<close>, \<^verbatim>\<open>name\<close>, \<^verbatim>\<open>data\<close>, \<^verbatim>\<open>monitor\<close>,
  \<^verbatim>\<open>status\<close>): an object gives its entry or \<^verbatim>\<open>undefined\<close>, since no prototype of
  a JSON value has a property of these names; an array, a primitive, \<^verbatim>\<open>null\<close> and
  \<^verbatim>\<open>undefined\<close> give \<^verbatim>\<open>undefined\<close>. Where the code reads \<^verbatim>\<open>null\<close> or
  \<^verbatim>\<open>undefined\<close> without \<^verbatim>\<open>?.\<close>, the exception is a branch of the caller.
\<close>

fun get_field :: "json option \<Rightarrow> string \<Rightarrow> json option" where
  "get_field (Some (JObj kvs)) k = map_of kvs k"
| "get_field v k = None"

lemma size_list_member: "x \<in> set xs \<Longrightarrow> f x < Suc (size_list f xs)"
  by (induction xs) auto

lemma size_zip_fst:
  "(x, y) \<in> set (zip xs ys) \<Longrightarrow> size (x::json) < Suc (size_list size xs)"
  using size_list_member [of x xs size] by (auto dest: set_zip_leftD)

lemma size_entry:
  "(k, v) \<in> set kvs \<Longrightarrow> size (v::json) < Suc (size_list (size_prod (\<lambda>x. 0) size) kvs)"
  using size_list_member [of "(k, v)" kvs "size_prod (\<lambda>x. 0) size"] by simp

text \<open>
  remeda's \<^verbatim>\<open>isDeepEqual\<close> on JSON values: identical primitives are equal; two arrays
  are equal when they have the same length and equal items at every index; two plain
  objects are equal when they have the same number of keys and every entry of the first
  has a key of the second with an equal value; an array and a plain object have different
  prototypes and are unequal; an object-type value and a primitive are unequal.
\<close>

function isDeepEqual :: "json \<Rightarrow> json \<Rightarrow> bool" where
  "isDeepEqual (JArr xs) (JArr ys) =
     (length xs = length ys \<and> (\<forall>(x, y) \<in> set (zip xs ys). isDeepEqual x y))"
| "isDeepEqual (JObj kvs) (JObj kws) =
     (length kvs = length kws \<and>
      (\<forall>(k, v) \<in> set kvs. case map_of kws k of None \<Rightarrow> False | Some w \<Rightarrow> isDeepEqual v w))"
| "isDeepEqual (JArr xs) (JObj kws) = False"
| "isDeepEqual (JObj kvs) (JArr ys) = False"
| "isDeepEqual JNull b = (JNull = b)"
| "isDeepEqual (JBool x) b = (JBool x = b)"
| "isDeepEqual (JNum x) b = (JNum x = b)"
| "isDeepEqual (JStr x) b = (JStr x = b)"
| "isDeepEqual (JArr xs) JNull = False"
| "isDeepEqual (JArr xs) (JBool y) = False"
| "isDeepEqual (JArr xs) (JNum y) = False"
| "isDeepEqual (JArr xs) (JStr y) = False"
| "isDeepEqual (JObj kvs) JNull = False"
| "isDeepEqual (JObj kvs) (JBool y) = False"
| "isDeepEqual (JObj kvs) (JNum y) = False"
| "isDeepEqual (JObj kvs) (JStr y) = False"
  by pat_completeness auto
termination
  by (relation "measure (\<lambda>(a, b). size a)") (auto dest: size_zip_fst size_entry)

text \<open>\<^verbatim>\<open>Array.prototype.join\<close> on strings.\<close>

fun join :: "string \<Rightarrow> string list \<Rightarrow> string" where
  "join sep [] = []"
| "join sep [x] = x"
| "join sep (x # y # ys) = x @ sep @ join sep (y # ys)"

text \<open>
  \<^verbatim>\<open>.filter(Boolean)\<close> on an array whose items are strings or \<^verbatim>\<open>false\<close> (the result
  of \<^verbatim>\<open>cond && `...`\<close>): \<^verbatim>\<open>false\<close> is \<open>None\<close>; the empty string is falsy as well.
\<close>

fun filter_Boolean :: "string option list \<Rightarrow> string list" where
  "filter_Boolean [] = []"
| "filter_Boolean (None # xs) = filter_Boolean xs"
| "filter_Boolean (Some s # xs) = (if s = [] then filter_Boolean xs else s # filter_Boolean xs)"

text \<open>
  A template literal \<^verbatim>\<open>${ n }\<close> on an integer-valued number prints its decimal digits
  (below \<^verbatim>\<open>1e21\<close>, where JavaScript switches to exponent notation).
\<close>

definition digit_char :: "nat \<Rightarrow> char" where
  "digit_char d = ''0123456789'' ! d"

function numberToString :: "nat \<Rightarrow> string" where
  "numberToString n =
     (let lastDigit = [digit_char (n mod 10)]
      in if n div 10 = 0 then lastDigit else numberToString (n div 10) @ lastDigit)"
  by pat_completeness auto
termination
  by (relation "measure (\<lambda>n. n)") auto

declare numberToString.simps [simp del]

definition integerToString :: "int \<Rightarrow> string" where
  "integerToString i =
     (if 0 \<le> i then numberToString (nat i) else CHR ''-'' # numberToString (nat (- i)))"

section \<open>Durations\<close>

text \<open>
  The arithmetic of \<^verbatim>\<open>formatDuration\<close> is the arithmetic of IEEE 754 doubles. A
  quotient \<^verbatim>\<open>a / b\<close> is the double nearest to the exact quotient, a tie going to the
  even significand. A double \<open>x\<close> of binary exponent \<open>e\<close>, that is with
  \<open>2 ^ e \<le> \<bar>x\<bar> < 2 ^ (e + 1)\<close>, is a multiple of \<open>2 ^ (e - 52)\<close>, the unit of its last
  place; \<open>twoTo\<close> is the power of two of an integer exponent. This is the rounding of
  the normal range (from \<open>2 ^ -1022\<close> to \<open>2 ^ 1024\<close>); a quotient of the code is zero or in
  that range, since its dividend is an integer and its divisor one of 1440, 60 and 60000.
  \<^verbatim>\<open>Math.floor\<close>, the difference of two integers below \<open>2 ^ 53\<close> and \<^verbatim>\<open>%\<close> have
  results that are doubles, so they do not round.
\<close>

definition twoTo :: "int \<Rightarrow> rat" where
  "twoTo e = (if 0 \<le> e then 2 ^ nat e else 1 / 2 ^ nat (- e))"

definition binaryExponent :: "rat \<Rightarrow> int" where
  "binaryExponent x =
     (if 1 \<le> x then int (floorlog 2 (nat \<lfloor>x\<rfloor>)) - 1
      else - int (floorlog 2 (nat (\<lceil>1 / x\<rceil> - 1))))"

definition roundHalfEven :: "rat \<Rightarrow> int" where
  "roundHalfEven y =
     (let f = \<lfloor>y\<rfloor>; d = y - of_int f
      in if d < 1 / 2 then f else if 1 / 2 < d then f + 1 else if even f then f else f + 1)"

definition roundToDouble :: "rat \<Rightarrow> rat" where
  "roundToDouble x =
     (if x = 0 then 0
      else (let ulp = twoTo (binaryExponent \<bar>x\<bar> - 52)
            in sgn x * (ulp * of_int (roundHalfEven (\<bar>x\<bar> / ulp)))))"

definition js_divide :: "rat \<Rightarrow> rat \<Rightarrow> rat" where
  "js_divide a b = roundToDouble (a / b)"

text \<open>
  The \<^verbatim>\<open>%\<close> of JavaScript numbers is the remainder of the truncated quotient (it has
  the sign of the dividend), computed exactly. The divisors of \<^verbatim>\<open>formatDuration\<close> are
  24 and 60.
\<close>

definition js_trunc :: "rat \<Rightarrow> int" where
  "js_trunc q = (if q < 0 then \<lceil>q\<rceil> else \<lfloor>q\<rfloor>)"

definition js_rem :: "rat \<Rightarrow> rat \<Rightarrow> rat" where
  "js_rem a b = a - b * of_int (js_trunc (a / b))"

text \<open>
  \<^verbatim>\<open>formatDuration\<close> (lines 401 to 415): the argument is floored, split with
  \<^verbatim>\<open>Math.floor\<close>, \<^verbatim>\<open>/\<close> and \<^verbatim>\<open>%\<close>, and each part \<^verbatim>\<open>n > 0 && `${ n }d`\<close> is
  kept by \<^verbatim>\<open>.filter(Boolean)\<close>. The product \<^verbatim>\<open>60 * 24\<close> is exact.
\<close>

definition formatDuration :: "rat \<Rightarrow> string" where
  "formatDuration totalMinutes0 =
     (let totalMinutes = (of_int \<lfloor>totalMinutes0\<rfloor> :: rat);
          days = \<lfloor>js_divide totalMinutes (60 * 24)\<rfloor>;
          hours = \<lfloor>js_rem (js_divide totalMinutes 60) 24\<rfloor>;
          minutes = \<lfloor>js_rem totalMinutes 60\<rfloor>;
          partList = filter_Boolean
            [if days > 0 then Some (integerToString days @ ''d'') else None,
             if hours > 0 then Some (integerToString hours @ ''h'') else None,
             if minutes > 0 then Some (integerToString minutes @ ''m'') else None]
      in if partList \<noteq> [] then join '' '' partList else ''0m'')"

text \<open>
  The decomposition as the specification words it: the non-zero components among days,
  hours and minutes, in that order, joined by single spaces, and \<^verbatim>\<open>0m\<close> when there is
  none.
\<close>

definition render_duration :: "int \<Rightarrow> int \<Rightarrow> int \<Rightarrow> string" where
  "render_duration d h r =
     (let parts = map (\<lambda>(n, u). integerToString n @ u)
                      (filter (\<lambda>(n, u). n \<noteq> 0) [(d, ''d''), (h, ''h''), (r, ''m'')])
      in if parts = [] then ''0m'' else join '' '' parts)"

section \<open>The snapshot differ\<close>

text \<open>
  A property map (\<^verbatim>\<open>Record<string, IProperty>\<close>) is an object: the list of its own
  entries in enumeration order. Its entries are JSON values, since the code itself checks
  at run time that an entry is an object. An object that came out of a JSON parser, or that
  \<^verbatim>\<open>Object.fromEntries\<close> or an object spread built, has every key as an own property,
  \<^verbatim>\<open>__proto__\<close> included; \<^verbatim>\<open>Object.keys\<close>, the read \<^verbatim>\<open>obj[key]\<close> of a key
  that \<^verbatim>\<open>Object.keys\<close> gave, and the definition of an own property (which replaces the
  value of a key in place and puts a new key last) are the operations on them. JavaScript
  enumerates the keys that are array indices first, in ascending order; the code inserts
  the keys of an object it builds in the enumeration order of the object they come from,
  and \<^verbatim>\<open>responseTime\<close> is no index, so the order of insertion is the order of
  enumeration. A \<^verbatim>\<open>Set<string>\<close> is the list of its members in insertion order.
\<close>

type_synonym property_map = "(string \<times> json) list"

definition Object_keys :: "property_map \<Rightarrow> string list" where
  "Object_keys obj = map fst obj"

definition lookup :: "property_map \<Rightarrow> string \<Rightarrow> json option" where
  "lookup obj key = map_of obj key"

text \<open>
  \<open>assign\<close> defines the own data property \<open>key\<close>, as \<^verbatim>\<open>Object.fromEntries\<close>, an
  object spread and a write that finds no setter on the prototype chain do.
\<close>

definition assign :: "string \<Rightarrow> json \<Rightarrow> property_map \<Rightarrow> property_map" where
  "assign key v obj = AList.update key v obj"

definition has :: "string list \<Rightarrow> string \<Rightarrow> bool" where
  "has s key = (key \<in> set s)"

definition Set_add :: "string \<Rightarrow> string list \<Rightarrow> string list" where
  "Set_add key s = (if key \<in> set s then s else s @ [key])"

text \<open>\<^verbatim>\<open>Object.fromEntries\<close> and the object spread \<^verbatim>\<open>{ ...a, ...b }\<close>.\<close>

definition fromEntries :: "(string \<times> json) list \<Rightarrow> property_map" where
  "fromEntries es = foldl (\<lambda>obj (k, v). assign k v obj) [] es"

definition spread :: "property_map \<Rightarrow> property_map \<Rightarrow> property_map" where
  "spread a b = foldl (\<lambda>obj (k, v). assign k v obj) a b"

text \<open>
  The own enumerable entries of a value, as \<^verbatim>\<open>Object.keys\<close> and an object spread see
  them: an array has its indices as keys, and so has a string, whose values are its
  characters (UTF-16 code units in JavaScript, bytes here: the same for ASCII text); the
  other primitives have none.
\<close>

fun Object_entries :: "json \<Rightarrow> property_map" where
  "Object_entries (JObj kvs) = kvs"
| "Object_entries (JArr xs) = zip (map numberToString [0..<length xs]) xs"
| "Object_entries (JStr cs) = zip (map numberToString [0..<length cs]) (map (\<lambda>c. JStr [c]) cs)"
| "Object_entries v = []"

text \<open>
  \<^verbatim>\<open>propertyAddedMap\<close> and \<^verbatim>\<open>propertyModifiedMap\<close> are object literals
  \<^verbatim>\<open>{}\<close> (lines 324 and 325), written with \<^verbatim>\<open>obj[key] = v\<close> and read with
  \<^verbatim>\<open>obj[key]\<close> for arbitrary keys (line 365), so their prototype chain matters. The
  prototype of a literal is \<^verbatim>\<open>Object.prototype\<close>, whose property names are listed
  below; all its properties are functions, except the accessor \<^verbatim>\<open>__proto__\<close>, whose
  getter returns the prototype of the object read and whose setter replaces that prototype
  when the value is an object or \<^verbatim>\<open>null\<close> and does nothing otherwise. Hence a write
  to \<^verbatim>\<open>__proto__\<close> creates no own property as long as the accessor is found on the
  chain. The names of \<^verbatim>\<open>Array.prototype\<close> are those of ECMAScript 2023; they are
  looked at only when an array has become the prototype.
\<close>

definition ObjectPrototype_names :: "string list" where
  "ObjectPrototype_names =
     [''constructor'', ''__defineGetter__'', ''__defineSetter__'', ''hasOwnProperty'',
      ''__lookupGetter__'', ''__lookupSetter__'', ''isPrototypeOf'', ''propertyIsEnumerable'',
      ''toString'', ''valueOf'', ''__proto__'', ''toLocaleString'']"

definition ArrayPrototype_names :: "string list" where
  "ArrayPrototype_names =
     [''constructor'', ''at'', ''concat'', ''copyWithin'', ''fill'', ''find'', ''findIndex'',
      ''findLast'', ''findLastIndex'', ''lastIndexOf'', ''pop'', ''push'', ''reverse'',
      ''shift'', ''unshift'', ''slice'', ''sort'', ''splice'', ''includes'', ''indexOf'',
      ''join'', ''keys'', ''entries'', ''values'', ''forEach'', ''filter'', ''flat'',
      ''flatMap'', ''map'', ''every'', ''some'', ''reduce'', ''reduceRight'',
      ''toReversed'', ''toSorted'', ''toSpliced'', ''with'', ''toLocaleString'', ''toString'']"

text \<open>
  The result of a read \<^verbatim>\<open>obj[key]\<close>: a JSON value, a function or object of the
  standard library (which is truthy and has no property \<^verbatim>\<open>data\<close>, \<^verbatim>\<open>monitor\<close> or
  \<^verbatim>\<open>status\<close>), or \<^verbatim>\<open>undefined\<close>.
\<close>

datatype property_read = Found json | Builtin | NotFound

fun truthyRead :: "property_read \<Rightarrow> bool" where
  "truthyRead (Found v) = truthy (Some v)"
| "truthyRead Builtin = True"
| "truthyRead NotFound = False"

text \<open>
  \<^verbatim>\<open>v[key]\<close> on a JSON object or array \<open>v\<close>: the own property, for an array also
  \<^verbatim>\<open>length\<close>, then the prototypes of \<open>v\<close>.
\<close>

fun readValue :: "json \<Rightarrow> string \<Rightarrow> property_read" where
  "readValue (JObj kvs) key =
     (case map_of kvs key of
        Some v \<Rightarrow> Found v
      | None \<Rightarrow> if key \<in> set ObjectPrototype_names then Builtin else NotFound)"
| "readValue (JArr xs) key =
     (case map_of (Object_entries (JArr xs)) key of
        Some v \<Rightarrow> Found v
      | None \<Rightarrow>
          if key = ''length'' then Found (JNum (of_nat (length xs)))
          else if key \<in> set ArrayPrototype_names \<or> key \<in> set ObjectPrototype_names
          then Builtin else NotFound)"
| "readValue v key = NotFound"

text \<open>
  An object literal: its own entries and its prototype, which is \<^verbatim>\<open>Object.prototype\<close>
  until a write to \<^verbatim>\<open>__proto__\<close> replaces it by a JSON value or by \<^verbatim>\<open>null\<close>.
\<close>

datatype prototype = ObjectPrototype | NullPrototype | ValuePrototype json

record js_object =
  properties :: property_map
  proto :: prototype

definition emptyObject :: js_object where
  "emptyObject = \<lparr> properties = [], proto = ObjectPrototype \<rparr>"

definition readProperty :: "js_object \<Rightarrow> string \<Rightarrow> property_read" where
  "readProperty obj key =
     (case lookup (properties obj) key of
        Some v \<Rightarrow> Found v
      | None \<Rightarrow>
          (case proto obj of
             ObjectPrototype \<Rightarrow>
               if key \<in> set ObjectPrototype_names then Builtin else NotFound
           | NullPrototype \<Rightarrow> NotFound
           | ValuePrototype v \<Rightarrow> readValue v key))"

text \<open>
  \<^verbatim>\<open>obj[key] = v\<close>. The accessor \<^verbatim>\<open>__proto__\<close> is found when neither the object
  nor a JSON value that is its prototype has an own property of that name and the chain ends
  in \<^verbatim>\<open>Object.prototype\<close>. Every other property on the chain is a writable data
  property, so the write defines an own property.
\<close>

definition accessorFound :: "js_object \<Rightarrow> bool" where
  "accessorFound obj \<longleftrightarrow>
     lookup (properties obj) ''__proto__'' = None \<and>
     (case proto obj of
        ObjectPrototype \<Rightarrow> True
      | NullPrototype \<Rightarrow> False
      | ValuePrototype v \<Rightarrow> lookup (Object_entries v) ''__proto__'' = None)"

definition setProperty :: "string \<Rightarrow> json \<Rightarrow> js_object \<Rightarrow> js_object" where
  "setProperty key v obj =
     (if key = ''__proto__'' \<and> accessorFound obj
      then (if isObjectType (Some v) then obj\<lparr> proto := ValuePrototype v \<rparr>
            else if v = JNull then obj\<lparr> proto := NullPrototype \<rparr>
            else obj)
      else obj\<lparr> properties := assign key v (properties obj) \<rparr>)"

text \<open>
  The test of lines 340 to 345: \<^verbatim>\<open>isDeepEqual\<close> when both values are of object type,
  \<^verbatim>\<open>!==\<close> otherwise. Where \<^verbatim>\<open>!==\<close> is evaluated, one side at least is a primitive
  or \<^verbatim>\<open>undefined\<close>, and strict inequality is inequality of the values.
\<close>

definition valueChanged :: "json option \<Rightarrow> json option \<Rightarrow> bool" where
  "valueChanged newValue oldValue =
     (if isObjectType newValue \<and> isObjectType oldValue
      then (case (newValue, oldValue) of
              (Some a, Some b) \<Rightarrow> \<not> isDeepEqual a b
            | _ \<Rightarrow> newValue \<noteq> oldValue)
      else newValue \<noteq> oldValue)"

text \<open>
  The body of the first \<^verbatim>\<open>forEach\<close> (lines 327 to 350), on the pair of
  \<^verbatim>\<open>propertyAddedMap\<close> and \<^verbatim>\<open>propertyModifiedMap\<close>. The key comes from the keys of
  \<open>subResponseDataMonitor\<close>, so the lookup of \<open>newProperty\<close> finds an entry.
\<close>

definition classifyKey ::
  "property_map option \<Rightarrow> property_map \<Rightarrow> js_object \<times> js_object \<Rightarrow> string
   \<Rightarrow> js_object \<times> js_object" where
  "classifyKey monitorApplicationResponseMap subResponseDataMonitor acc key =
     (case lookup subResponseDataMonitor key of
        None \<Rightarrow> acc
      | Some newProperty \<Rightarrow>
          (let (propertyAddedMap, propertyModifiedMap) = acc in
           if \<not> (case monitorApplicationResponseMap of
                    None \<Rightarrow> False
                  | Some m \<Rightarrow> has (Object_keys m) key)
           then (setProperty key newProperty propertyAddedMap, propertyModifiedMap)
           else if isObjectType (Some newProperty) \<and>
                   get_field (Some newProperty) ''value'' \<noteq> None \<and>
                   truthy (get_field (Some newProperty) ''isListeningModifiedEvent'')
           then (let oldProperty = (case monitorApplicationResponseMap of
                                      None \<Rightarrow> None
                                    | Some m \<Rightarrow> lookup m key)
                 in if valueChanged (get_field (Some newProperty) ''value'')
                                    (get_field oldProperty ''value'')
                    then (propertyAddedMap, setProperty key newProperty propertyModifiedMap)
                    else acc)
           else acc))"

definition classifyKeys ::
  "property_map option \<Rightarrow> property_map \<Rightarrow> js_object \<times> js_object" where
  "classifyKeys monitorApplicationResponseMap subResponseDataMonitor =
     foldl (classifyKey monitorApplicationResponseMap subResponseDataMonitor)
       (emptyObject, emptyObject) (Object_keys subResponseDataMonitor)"

text \<open>The second \<^verbatim>\<open>forEach\<close> (lines 352 to 360).\<close>

definition removedKeys :: "property_map option \<Rightarrow> property_map \<Rightarrow> string list" where
  "removedKeys monitorApplicationResponseMap subResponseDataMonitor =
     (case monitorApplicationResponseMap of
        None \<Rightarrow> []
      | Some m \<Rightarrow>
          foldl (\<lambda>propertyRemovedSet key.
                   if \<not> has (Object_keys subResponseDataMonitor) key
                   then Set_add key propertyRemovedSet else propertyRemovedSet)
            [] (Object_keys m))"

text \<open>
  \<^verbatim>\<open>defaultRetentionMap\<close> (lines 296 to 301): the latency is a rounded, non-negative
  number of milliseconds, and \<^verbatim>\<open>toFixed(1)\<close> prints it with one decimal.
\<close>

definition defaultRetentionMap :: "nat \<Rightarrow> property_map" where
  "defaultRetentionMap elapsedMiliseconds =
     [(''responseTime'',
       JObj [(''name'', JStr ''Tempo de resposta''),
             (''value'', JStr (numberToString elapsedMiliseconds @ ''.0ms''))])]"

text \<open>
  \<^verbatim>\<open>propertyRetentionMap\<close> (lines 362 to 369). The filter reads
  \<^verbatim>\<open>propertyAddedMap[key]\<close> and \<^verbatim>\<open>propertyModifiedMap[key]\<close> through the
  prototype chain and tests the truthiness of what it finds.
\<close>

definition retentionMap ::
  "property_map \<Rightarrow> js_object \<Rightarrow> js_object \<Rightarrow> string list \<Rightarrow> property_map
   \<Rightarrow> property_map" where
  "retentionMap subResponseDataMonitor propertyAddedMap propertyModifiedMap propertyRemovedSet
       defaults =
     spread
       (fromEntries
          (List.map_filter (\<lambda>key. map_option (Pair key) (lookup subResponseDataMonitor key))
             (filter (\<lambda>key. \<not> truthyRead (readProperty propertyAddedMap key) \<and>
                             \<not> truthyRead (readProperty propertyModifiedMap key) \<and>
                             \<not> has propertyRemovedSet key)
                (Object_keys subResponseDataMonitor))))
       defaults"

text \<open>
  The health map (\<^verbatim>\<open>IMonitorApplicationHealthMap\<close>); an optional field is an option.
  The field \<^verbatim>\<open>isHealthy\<close> is shared by the interfaces of both versions of the service
  and of \<^verbatim>\<open>IMonitorApplicationMap\<close>, so it is the field of a base record. The
  interfaces declare it a boolean, but line 316 stores whatever the gateway's answer has as
  \<^verbatim>\<open>status\<close>, and nothing checks it: in this version of the service the field holds a
  JavaScript value, \<open>None\<close> being \<^verbatim>\<open>undefined\<close>.
\<close>

record 'h health_status =
  isHealthy :: 'h

record health_map = "json option health_status" +
  responseMap :: "property_map option"
  propertyAddedMap :: "property_map option"
  propertyModifiedMap :: "property_map option"
  propertyRemovedSet :: "string list option"
  propertyRetentionMap :: property_map

text \<open>
  Lines 321 to 378: the differ proper, from the stored snapshot
  (\<^verbatim>\<open>monitorApplication.response_map\<close>, \<^verbatim>\<open>null\<close> being \<open>None\<close>), the fetched
  property map and the latency. The callers of the differ use \<^verbatim>\<open>Object.keys\<close> and
  \<^verbatim>\<open>Object.values\<close> of \<^verbatim>\<open>propertyAddedMap\<close> and \<^verbatim>\<open>propertyModifiedMap\<close> only,
  so the health map keeps their own entries.
\<close>

definition snapshotDiff :: "property_map option \<Rightarrow> property_map \<Rightarrow> nat \<Rightarrow> health_map" where
  "snapshotDiff monitorApplicationResponseMap subResponseDataMonitor elapsedMiliseconds =
     (let (added, modified) = classifyKeys monitorApplicationResponseMap subResponseDataMonitor;
          removed = removedKeys monitorApplicationResponseMap subResponseDataMonitor
      in \<lparr> isHealthy = Some (JBool True),
           responseMap = Some subResponseDataMonitor,
           propertyAddedMap = Some (properties added),
           propertyModifiedMap = Some (properties modified),
           propertyRemovedSet = Some removed,
           propertyRetentionMap =
             retentionMap subResponseDataMonitor added modified removed
               (defaultRetentionMap elapsedMiliseconds) \<rparr>)"

text \<open>The key sets of the four buckets, for stating the properties of the differ.\<close>

definition addedKeys :: "health_map \<Rightarrow> string set" where
  "addedKeys h = (case propertyAddedMap h of None \<Rightarrow> {} | Some m \<Rightarrow> set (Object_keys m))"

definition modifiedKeys :: "health_map \<Rightarrow> string set" where
  "modifiedKeys h = (case propertyModifiedMap h of None \<Rightarrow> {} | Some m \<Rightarrow> set (Object_keys m))"

definition removedKeySet :: "health_map \<Rightarrow> string set" where
  "removedKeySet h = (case propertyRemovedSet h of None \<Rightarrow> {} | Some s \<Rightarrow> set s)"

definition retainedKeys :: "health_map \<Rightarrow> string set" where
  "retainedKeys h = set (Object_keys (propertyRetentionMap h))"

section \<open>The store, the gateway and the cycle of one service\<close>

text \<open>
  Errors are values. \<open>TypeError\<close> is a property read on \<^verbatim>\<open>null\<close> or \<^verbatim>\<open>undefined\<close>,
  \<open>ValidationError\<close> is Prisma's refusal of an update whose data do not have the type
  of their column, \<open>RecordNotFound\<close> its failure of an update whose row does not exist,
  \<open>DeliveryFailure\<close> the rejection of the notification request.
\<close>

datatype error = TypeError | ValidationError | RecordNotFound | DeliveryFailure

text \<open>
  A row of \<^verbatim>\<open>monitor_applications\<close>. The columns the two versions of the service share
  are a base record (\<^verbatim>\<open>id\<close> is \<open>row_id\<close>); a \<^verbatim>\<open>Date\<close> is its number of
  milliseconds since the epoch.
\<close>

record monitor_application_base =
  row_id :: nat
  application_type :: string
  is_alive :: bool
  is_monitor_application_active :: bool
  is_alive_transition_at :: int
  created_at :: int
  updated_at :: int

record monitor_application = monitor_application_base +
  api_gateway_api_id :: nat
  response_map :: "property_map option"

text \<open>
  What the world outside does in one tick is the environment: the answer to the request
  made for a service, with the measured milliseconds; the table \<^verbatim>\<open>api_gateway_apis\<close>;
  the two clock readings of a service's cycle (line 471 and line 425); the string
  conversion of template literals; whether the notification service accepts a message; and
  what Prisma's client makes of a value given for the boolean column \<^verbatim>\<open>is_alive\<close> that
  is neither \<^verbatim>\<open>undefined\<close> nor a boolean (\<open>isAliveInput\<close>: it refuses most such values
  and reads some objects as an update operation).
  The answer is \<^verbatim>\<open>response?.data?.data\<close>, \<open>None\<close> when the request failed or the
  field is missing or falsy; otherwise it is the object the gateway aggregates, with one
  entry per API name, and an entry is the JSON the gateway sent, whatever its shape. The
  services of one tick run concurrently, each on the row it was given and on the store's
  row of its own id; the model runs them in the order of the list.
\<close>

record environment_base =
  SERVER_IP :: string
  clock :: "nat \<Rightarrow> int \<times> int"
  display :: "json option \<Rightarrow> string"
  accepts :: "string \<Rightarrow> bool"

record environment = environment_base +
  api_gateway_apis :: "(nat \<times> string) list"
  probe :: "nat \<Rightarrow> property_map option \<times> nat"
  isAliveInput :: "json \<Rightarrow> error + bool option"

text \<open>
  The state one tick changes: the table, the errors given to \<^verbatim>\<open>loggerUtil.error\<close>, the
  messages the notification service received, and the rejections of promises that nothing
  awaits.
\<close>

record 'row world =
  monitor_applications :: "'row list"
  logged :: "error list"
  delivered :: "string list"
  unhandledRejections :: "error list"

text \<open>
  \<^verbatim>\<open>fetchMonitorApplicationHealthMap\<close> (lines 266 to 379). Line 311 reads the answer at
  the API's name: the entry of that name, a property that the answer inherits from
  \<^verbatim>\<open>Object.prototype\<close> when the name is one of its names, or \<^verbatim>\<open>undefined\<close>; when
  the API row is not found \<^verbatim>\<open>subResponse\<close> is \<^verbatim>\<open>null\<close>. Line 312 reads
  \<^verbatim>\<open>subResponse?.data?.monitor\<close>, and line 316 reads \<^verbatim>\<open>subResponse.status\<close>, which
  throws on \<^verbatim>\<open>null\<close> and \<^verbatim>\<open>undefined\<close> and is \<^verbatim>\<open>undefined\<close> on a value without
  that property. In the last branch \<open>subResponseDataMonitor\<close> is of object type, so its
  case \<open>None\<close> does not occur.
\<close>

definition fetchMonitorApplicationHealthMap ::
  "environment \<Rightarrow> monitor_application \<Rightarrow> error + health_map" where
  "fetchMonitorApplicationHealthMap env monitorApplication =
     (let (responseData, elapsedMiliseconds) = probe env (row_id monitorApplication);
          defaultRetention = defaultRetentionMap elapsedMiliseconds
      in case responseData of
           None \<Rightarrow>
             Inr \<lparr> isHealthy = Some (JBool False), responseMap = None, propertyAddedMap = None,
                   propertyModifiedMap = None, propertyRemovedSet = None,
                   propertyRetentionMap = defaultRetention \<rparr>
         | Some responseDataData \<Rightarrow>
             (let api = map_of (api_gateway_apis env) (api_gateway_api_id monitorApplication);
                  subResponse = (case api of
                                   None \<Rightarrow> Found JNull
                                 | Some name \<Rightarrow> readValue (JObj responseDataData) name);
                  subResponseDataMonitor =
                    (case subResponse of
                       Found r \<Rightarrow> get_field (get_field (Some r) ''data'') ''monitor''
                     | Builtin \<Rightarrow> None
                     | NotFound \<Rightarrow> None)
              in if \<not> isObjectType subResponseDataMonitor
                 then (case subResponse of
                         Found r \<Rightarrow>
                           if r = JNull then Inl TypeError
                           else Inr \<lparr> isHealthy = get_field (Some r) ''status'',
                                      responseMap = None,
                                      propertyAddedMap = None, propertyModifiedMap = None,
                                      propertyRemovedSet = None,
                                      propertyRetentionMap = defaultRetention \<rparr>
                       | Builtin \<Rightarrow>
                           Inr \<lparr> isHealthy = None, responseMap = None,
                                 propertyAddedMap = None, propertyModifiedMap = None,
                                 propertyRemovedSet = None,
                                 propertyRetentionMap = defaultRetention \<rparr>
                       | NotFound \<Rightarrow> Inl TypeError)
                 else (case subResponseDataMonitor of
                         None \<Rightarrow> Inl TypeError
                       | Some m \<Rightarrow>
                           Inr (snapshotDiff (response_map monitorApplication)
                                  (Object_entries m) elapsedMiliseconds))))"

text \<open>
  \<^verbatim>\<open>updateMonitorApplication\<close> (lines 381 to 399): Prisma's \<^verbatim>\<open>update\<close> of the row with
  the given id. A field given as \<^verbatim>\<open>undefined\<close> is left as it is (\<^verbatim>\<open>responseMap\<close>
  when the health map has none, and \<^verbatim>\<open>isAlive\<close> when the fetched \<^verbatim>\<open>isHealthy\<close> is
  \<^verbatim>\<open>undefined\<close>), and a boolean is written to the boolean column. The client validates
  the data before it queries; what it answers to any other value is the environment's
  \<open>isAliveInput\<close>, given as the first argument: an error, the boolean to write, or
  \<open>None\<close> for leaving the column. The update throws when there is no row of the id.
\<close>

fun prismaBoolean :: "(json \<Rightarrow> error + bool option) \<Rightarrow> json option \<Rightarrow> error + bool option" where
  "prismaBoolean other None = Inr None"
| "prismaBoolean other (Some (JBool b)) = Inr (Some b)"
| "prismaBoolean other (Some v) = other v"

definition updateMonitorApplication ::
  "(json \<Rightarrow> error + bool option) \<Rightarrow> monitor_application \<Rightarrow> json option \<Rightarrow> int \<Rightarrow> int
   \<Rightarrow> property_map option \<Rightarrow> monitor_application list
   \<Rightarrow> error + monitor_application list" where
  "updateMonitorApplication other monitorApplication isAlive isAliveTransitionAt updatedAt
       responseMap0 table =
     (case prismaBoolean other isAlive of
        Inl e \<Rightarrow> Inl e
      | Inr isAlive0 \<Rightarrow>
          if list_ex (\<lambda>r. row_id r = row_id monitorApplication) table
          then Inr (map (\<lambda>r. if row_id r = row_id monitorApplication
                               then r\<lparr> response_map := (case responseMap0 of
                                                           None \<Rightarrow> response_map r
                                                         | Some m \<Rightarrow> Some m),
                                      is_alive := (case isAlive0 of
                                                     None \<Rightarrow> is_alive r
                                                   | Some b \<Rightarrow> b),
                                      is_alive_transition_at := isAliveTransitionAt,
                                      updated_at := updatedAt \<rparr>
                               else r) table)
          else Inl RecordNotFound)"

text \<open>
  \<^verbatim>\<open>formatMonitorApplicationMessageMap\<close> (lines 417 to 448). A line of a property
  reads \<^verbatim>\<open>property.name\<close> and \<^verbatim>\<open>property.value\<close>, which throws when the property is
  \<^verbatim>\<open>null\<close>; \<^verbatim>\<open>reduce\<close> stops at the first exception.
\<close>

definition propertyLine ::
  "(json option \<Rightarrow> string) \<Rightarrow> string \<Rightarrow> string \<Rightarrow> json \<Rightarrow> error + string" where
  "propertyLine disp marker accumulator property =
     (if property = JNull then Inl TypeError
      else Inr (accumulator @ ''\<newline>'' @ marker @ '' '' @
                disp (get_field (Some property) ''name'') @ '': _'' @
                disp (get_field (Some property) ''value'') @ ''_''))"

fun reduceE :: "('b \<Rightarrow> 'a \<Rightarrow> error + 'b) \<Rightarrow> 'b \<Rightarrow> 'a list \<Rightarrow> error + 'b" where
  "reduceE f accumulator [] = Inr accumulator"
| "reduceE f accumulator (x # xs) =
     (case f accumulator x of Inl e \<Rightarrow> Inl e | Inr accumulator' \<Rightarrow> reduceE f accumulator' xs)"

definition bindE :: "error + 'a \<Rightarrow> ('a \<Rightarrow> error + 'b) \<Rightarrow> error + 'b" where
  "bindE m f = (case m of Inl e \<Rightarrow> Inl e | Inr x \<Rightarrow> f x)"

record message_map =
  propertyAddedMessage :: "string option"
  propertyModifiedMessage :: "string option"
  propertyRemovedMessage :: "string option"
  propertyRetentionMessage :: string

definition propertyMessage ::
  "(json option \<Rightarrow> string) \<Rightarrow> string \<Rightarrow> string \<Rightarrow> property_map option
   \<Rightarrow> error + string option" where
  "propertyMessage disp marker messagePrefix propertyMap =
     (case propertyMap of
        None \<Rightarrow> Inr None
      | Some m \<Rightarrow>
          if length (Object_keys m) \<noteq> 0
          then bindE (reduceE (propertyLine disp marker) messagePrefix (map snd m))
                 (\<lambda>message. Inr (Some message))
          else Inr None)"

definition formatMonitorApplicationMessageMap ::
  "(json option \<Rightarrow> string) \<Rightarrow> int \<Rightarrow> monitor_application \<Rightarrow> health_map \<Rightarrow> int option
   \<Rightarrow> error + message_map" where
  "formatMonitorApplicationMessageMap disp now monitorApplication monitorApplicationHealthMap
       isAliveTransitionAt =
     (let messagePrefix = ''['' @ application_type monitorApplication @ '']'';
          propertyRetentionMessagePrefix =
            (case isAliveTransitionAt of
               Some transitionAt \<Rightarrow>
                 messagePrefix @ ''\<newline>= Desde: _'' @
                 formatDuration (js_divide (of_int (now - transitionAt)) 60000) @ ''_''
             | None \<Rightarrow> messagePrefix)
      in bindE (propertyMessage disp ''+'' messagePrefix
                  (propertyAddedMap monitorApplicationHealthMap)) (\<lambda>added.
         bindE (propertyMessage disp ''~'' messagePrefix
                  (propertyModifiedMap monitorApplicationHealthMap)) (\<lambda>modified.
         bindE (reduceE (propertyLine disp ''='') propertyRetentionMessagePrefix
                  (map snd (propertyRetentionMap monitorApplicationHealthMap))) (\<lambda>retention.
         Inr \<lparr> propertyAddedMessage = added,
               propertyModifiedMessage = modified,
               propertyRemovedMessage =
                 (case propertyRemovedSet monitorApplicationHealthMap of
                    None \<Rightarrow> None
                  | Some removed \<Rightarrow>
                      if length removed \<noteq> 0
                      then Some (foldl (\<lambda>accumulator name. accumulator @ ''\<newline>- '' @ name)
                                   messagePrefix removed)
                      else None),
               propertyRetentionMessage = retention \<rparr>))))"

text \<open>\<^verbatim>\<open>IMonitorApplicationMap\<close>: the outcome of a service that is reported.\<close>

record monitor_application_map = "json option health_status" +
  messageMap :: message_map

text \<open>
  \<^verbatim>\<open>processMonitorApplication\<close> (lines 450 to 502). Line 456 compares the fetched
  \<^verbatim>\<open>isHealthy\<close> with the stored boolean by \<^verbatim>\<open>!==\<close>: they differ unless the fetched
  value is that boolean. The \<^verbatim>\<open>catch\<close> logs the error of the fetch, of the update or of
  the formatter and returns \<^verbatim>\<open>null\<close>.
\<close>

definition processMonitorApplication ::
  "environment \<Rightarrow> bool \<Rightarrow> monitor_application \<Rightarrow> monitor_application world
   \<Rightarrow> monitor_application_map option \<times> monitor_application world" where
  "processMonitorApplication env isPeriodicWarn monitorApplication w =
     (case fetchMonitorApplicationHealthMap env monitorApplication of
        Inl e \<Rightarrow> (None, w\<lparr> logged := logged w @ [e] \<rparr>)
      | Inr monitorApplicationHealthMap \<Rightarrow>
          (let isAliveTransitioned =
                 (isHealthy monitorApplicationHealthMap \<noteq>
                  Some (JBool (is_alive monitorApplication)));
               hasPropertyAdded =
                 (case propertyAddedMap monitorApplicationHealthMap of
                    None \<Rightarrow> False | Some m \<Rightarrow> length (Object_keys m) \<noteq> 0);
               hasPropertyModified =
                 (case propertyModifiedMap monitorApplicationHealthMap of
                    None \<Rightarrow> False | Some m \<Rightarrow> length (Object_keys m) \<noteq> 0);
               hasPropertyRemoved =
                 (case propertyRemovedSet monitorApplicationHealthMap of
                    None \<Rightarrow> False | Some s \<Rightarrow> length s \<noteq> 0)
           in if isPeriodicWarn \<or> isAliveTransitioned \<or> hasPropertyAdded \<or>
                 hasPropertyModified \<or> hasPropertyRemoved
              then (let (updatedAt, formattedAt) = clock env (row_id monitorApplication);
                        isHealthy0 = (if isAliveTransitioned
                                      then isHealthy monitorApplicationHealthMap
                                      else Some (JBool (is_alive monitorApplication)));
                        isAliveTransitionAt =
                          (if isAliveTransitioned then updatedAt
                           else is_alive_transition_at monitorApplication)
                    in case updateMonitorApplication (isAliveInput env) monitorApplication
                              isHealthy0
                              isAliveTransitionAt updatedAt
                              (responseMap monitorApplicationHealthMap)
                              (monitor_applications w) of
                         Inl e \<Rightarrow> (None, w\<lparr> logged := logged w @ [e] \<rparr>)
                       | Inr table \<Rightarrow>
                           (case formatMonitorApplicationMessageMap (display env) formattedAt
                                   monitorApplication monitorApplicationHealthMap
                                   (if isPeriodicWarn \<or> isAliveTransitioned
                                    then Some isAliveTransitionAt else None) of
                              Inl e \<Rightarrow>
                                (None, w\<lparr> monitor_applications := table,
                                          logged := logged w @ [e] \<rparr>)
                            | Inr messages \<Rightarrow>
                                (Some \<lparr> isHealthy = isHealthy0, messageMap = messages \<rparr>,
                                 w\<lparr> monitor_applications := table \<rparr>)))
              else (None, w)))"

section \<open>The report and the cycle\<close>

text \<open>
  The five lists of lines 551 to 555 and the body of the \<^verbatim>\<open>forEach\<close> of lines 557 to
  570, which tests the truthiness of \<^verbatim>\<open>isHealthy\<close>.
\<close>

record report_buckets =
  serviceOnlineMessageList :: "string list"
  serviceOfflineMessageList :: "string list"
  propertyAddedMessageList :: "string list"
  propertyModifiedMessageList :: "string list"
  propertyRemovedMessageList :: "string list"

definition emptyBuckets :: report_buckets where
  "emptyBuckets =
     \<lparr> serviceOnlineMessageList = [], serviceOfflineMessageList = [],
       propertyAddedMessageList = [], propertyModifiedMessageList = [],
       propertyRemovedMessageList = [] \<rparr>"

text \<open>\<^verbatim>\<open>message && list.push(message)\<close>: an undefined or empty message is not pushed.\<close>

definition pushIfTruthy :: "string option \<Rightarrow> string list \<Rightarrow> string list" where
  "pushIfTruthy message messageList =
     (case message of
        None \<Rightarrow> messageList
      | Some m \<Rightarrow> if m \<noteq> [] then messageList @ [m] else messageList)"

definition collectMessages :: "report_buckets \<Rightarrow> monitor_application_map \<Rightarrow> report_buckets" where
  "collectMessages b monitorApplicationMap =
     (let monitorApplicationMapMessageMap = messageMap monitorApplicationMap
      in if truthy (isHealthy monitorApplicationMap)
         then b\<lparr> serviceOnlineMessageList :=
                    serviceOnlineMessageList b @
                    [propertyRetentionMessage monitorApplicationMapMessageMap],
                 propertyAddedMessageList :=
                    pushIfTruthy (propertyAddedMessage monitorApplicationMapMessageMap)
                      (propertyAddedMessageList b),
                 propertyModifiedMessageList :=
                    pushIfTruthy (propertyModifiedMessage monitorApplicationMapMessageMap)
                      (propertyModifiedMessageList b),
                 propertyRemovedMessageList :=
                    pushIfTruthy (propertyRemovedMessage monitorApplicationMapMessageMap)
                      (propertyRemovedMessageList b) \<rparr>
         else b\<lparr> serviceOfflineMessageList :=
                    serviceOfflineMessageList b @
                    [propertyRetentionMessage monitorApplicationMapMessageMap] \<rparr>)"

text \<open>The emoji and the cedilla of the report's literals, as their UTF-8 bytes.\<close>

definition pushpin :: string where "pushpin = [CHR 0xF0, CHR 0x9F, CHR 0x93, CHR 0x8C]"
definition highVoltage :: string where "highVoltage = [CHR 0xE2, CHR 0x9A, CHR 0xA1]"
definition zzz :: string where "zzz = [CHR 0xF0, CHR 0x9F, CHR 0x92, CHR 0xA4]"
definition upButton :: string where "upButton = [CHR 0xF0, CHR 0x9F, CHR 0x94, CHR 0xBC]"
definition counterclockwise :: string where "counterclockwise = [CHR 0xF0, CHR 0x9F, CHR 0x94, CHR 0x84]"
definition downButton :: string where "downButton = [CHR 0xF0, CHR 0x9F, CHR 0x94, CHR 0xBD]"
definition globe :: string where "globe = [CHR 0xF0, CHR 0x9F, CHR 0x8C, CHR 0x90]"
definition cCedilla :: string where "cCedilla = [CHR 0xC3, CHR 0x87]"

text \<open>
  The message of lines 523 to 531: an array of the title, one item per list
  (\<^verbatim>\<open>list.length > 0 && `...`\<close>) and the footer, filtered by \<^verbatim>\<open>Boolean\<close> and joined by
  the empty string.
\<close>

definition reportMessage :: "string \<Rightarrow> report_buckets \<Rightarrow> string" where
  "reportMessage serverIp b =
     join []
       (filter_Boolean
          [Some (pushpin @ '' *MONITOR DE SERVI'' @ cCedilla @ ''OS* '' @ pushpin),
           if length (serviceOnlineMessageList b) > 0
           then Some (''\<newline>\<newline>'' @ highVoltage @ '' *SERVI'' @ cCedilla @ ''O ONLINE ('' @
                      numberToString (length (serviceOnlineMessageList b)) @ '')* '' @ highVoltage @
                      ''\<newline>\<newline>'' @ join ''\<newline>\<newline>'' (serviceOnlineMessageList b))
           else None,
           if length (serviceOfflineMessageList b) > 0
           then Some (''\<newline>\<newline>'' @ zzz @ '' *SERVI'' @ cCedilla @ ''O OFFLINE ('' @
                      numberToString (length (serviceOfflineMessageList b)) @ '')* '' @ zzz @
                      ''\<newline>\<newline>'' @ join ''\<newline>\<newline>'' (serviceOfflineMessageList b))
           else None,
           if length (propertyAddedMessageList b) > 0
           then Some (''\<newline>\<newline>'' @ upButton @ '' *PROP. ADICIONADA ('' @
                      numberToString (length (propertyAddedMessageList b)) @ '')* '' @ upButton @
                      ''\<newline>\<newline>'' @ join ''\<newline>\<newline>'' (propertyAddedMessageList b))
           else None,
           if length (propertyModifiedMessageList b) > 0
           then Some (''\<newline>\<newline>'' @ counterclockwise @ '' *PROP. MODIFICADA ('' @
                      numberToString (length (propertyModifiedMessageList b)) @ '')* '' @
                      counterclockwise @
                      ''\<newline>\<newline>'' @ join ''\<newline>\<newline>'' (propertyModifiedMessageList b))
           else None,
           if length (propertyRemovedMessageList b) > 0
           then Some (''\<newline>\<newline>'' @ downButton @ '' *PROP. REMOVIDA ('' @
                      numberToString (length (propertyRemovedMessageList b)) @ '')* '' @ downButton @
                      ''\<newline>\<newline>'' @ join ''\<newline>\<newline>'' (propertyRemovedMessageList b))
           else None,
           Some (''\<newline>\<newline>'' @ globe @ '' *Servidor*: _'' @ serverIp @ ''_'')])"

text \<open>
  \<^verbatim>\<open>sendApplicationMonitoringReport\<close> (lines 504 to 544): nothing is sent when the five
  lists are empty; otherwise the message is posted, and the function rejects when the post
  does (there is no \<^verbatim>\<open>try\<close> around it).
\<close>

definition sendApplicationMonitoringReport ::
  "environment \<Rightarrow> report_buckets \<Rightarrow> 'row world \<Rightarrow> (error + unit) \<times> 'row world" where
  "sendApplicationMonitoringReport env b w =
     (if length (serviceOnlineMessageList b) = 0 \<and>
         length (serviceOfflineMessageList b) = 0 \<and>
         length (propertyAddedMessageList b) = 0 \<and>
         length (propertyModifiedMessageList b) = 0 \<and>
         length (propertyRemovedMessageList b) = 0
      then (Inr (), w)
      else (let message = reportMessage (SERVER_IP env) b
            in if accepts env message
               then (Inr (), w\<lparr> delivered := delivered w @ [message] \<rparr>)
               else (Inl DeliveryFailure, w)))"

text \<open>
  \<^verbatim>\<open>monitorApplications\<close> (lines 546 to 582): the active rows are read, every service is
  processed, the outcomes that are not \<^verbatim>\<open>null\<close> are sorted into the five lists, and the
  report is sent. The call of line 572 is not awaited: when its promise rejects, the
  rejection is outside the \<^verbatim>\<open>try\<close> of line 547 and nothing handles it.
\<close>

fun processAll ::
  "environment \<Rightarrow> bool \<Rightarrow> monitor_application list \<Rightarrow> monitor_application world
   \<Rightarrow> monitor_application_map option list \<times> monitor_application world" where
  "processAll env isPeriodicWarn [] w = ([], w)"
| "processAll env isPeriodicWarn (monitorApplication # rest) w =
     (let (monitorApplicationMap, w1) =
            processMonitorApplication env isPeriodicWarn monitorApplication w;
          (monitorApplicationMapList, w2) = processAll env isPeriodicWarn rest w1
      in (monitorApplicationMap # monitorApplicationMapList, w2))"

definition cycleBuckets :: "monitor_application_map option list \<Rightarrow> report_buckets" where
  "cycleBuckets monitorApplicationMapList =
     (let monitorApplicationMapFilteredList = List.map_filter (\<lambda>m. m) monitorApplicationMapList
      in foldl collectMessages emptyBuckets monitorApplicationMapFilteredList)"

definition monitorApplications ::
  "environment \<Rightarrow> bool \<Rightarrow> monitor_application world \<Rightarrow> monitor_application world" where
  "monitorApplications env isPeriodicWarn w =
     (let monitorApplicationList =
            filter is_monitor_application_active (monitor_applications w);
          (monitorApplicationMapList, w1) =
            processAll env isPeriodicWarn monitorApplicationList w;
          (sent, w2) =
            sendApplicationMonitoringReport env (cycleBuckets monitorApplicationMapList) w1
      in case sent of
           Inl e \<Rightarrow> w2\<lparr> unhandledRejections := unhandledRejections w2 @ [e] \<rparr>
         | Inr u \<Rightarrow> w2)"

section \<open>The earlier version of the service\<close>

text \<open>
  \<^verbatim>\<open>src/services/monitorApplications.service.ts\<close> is the version of the service that
  keeps, instead of a snapshot, the flag \<^verbatim>\<open>is_alive_transition_notified_by_monitor\<close>.
  Its functions of the same name as a function above carry the suffix \<open>legacy\<close>. Its
  \<^verbatim>\<open>dateTimeFormatterUtil.formatDuration\<close> is not among the sources and is a field of the
  environment; the answer to a request is \<^verbatim>\<open>response?.data\<close> (\<open>None\<close> when the request
  failed) as the pair of \<^verbatim>\<open>status\<close> and \<^verbatim>\<open>data\<close>. For this version the gateway's
  entry for one API is taken at the type the callback of line 85 declares for it: a boolean
  \<^verbatim>\<open>status\<close> and \<^verbatim>\<open>monitor\<close> (\<open>None\<close> when it is absent), under a name that
  \<^verbatim>\<open>Object.prototype\<close> does not have; \<^verbatim>\<open>isHealthy\<close> is then a boolean.
\<close>

record sub_response =
  status :: bool
  monitor :: "json option"

record monitor_application_legacy = monitor_application_base +
  apis_id :: nat
  is_alive_transition_notified_by_monitor :: bool

record health_map_legacy = "bool health_status" +
  data :: property_map

record monitor_application_map_legacy = "bool health_status" +
  information :: string

record environment_legacy = environment_base +
  apis :: "(nat \<times> string) list"
  probe_legacy :: "nat \<Rightarrow> (bool \<times> (string \<times> sub_response) list option) option \<times> nat"
  dateTimeFormatterUtil_formatDuration :: "rat \<Rightarrow> string"

text \<open>\<^verbatim>\<open>fetchMonitorApplicationHealthMap\<close> of the earlier version (lines 37 to 121).\<close>

definition fetchMonitorApplicationHealthMap_legacy ::
  "environment_legacy \<Rightarrow> monitor_application_legacy \<Rightarrow> health_map_legacy" where
  "fetchMonitorApplicationHealthMap_legacy env monitorApplication =
     (let (response, elapsedMiliseconds) = probe_legacy env (row_id monitorApplication);
          responseTime = defaultRetentionMap elapsedMiliseconds;
          unreachable = \<lparr> isHealthy = False, data = responseTime \<rparr>
      in case response of
           None \<Rightarrow> unreachable
         | Some (responseStatus, responseData) \<Rightarrow>
             if \<not> responseStatus then unreachable
             else (case map_of (apis env) (apis_id monitorApplication) of
                     None \<Rightarrow> unreachable
                   | Some name \<Rightarrow>
                       (case (case responseData of
                                None \<Rightarrow> None
                              | Some d \<Rightarrow> map_of d name) of
                          None \<Rightarrow> unreachable
                        | Some subResponse \<Rightarrow>
                            (case monitor subResponse of
                               None \<Rightarrow> \<lparr> isHealthy = status subResponse, data = responseTime \<rparr>
                             | Some m \<Rightarrow>
                                 if \<not> truthy (Some m)
                                 then \<lparr> isHealthy = status subResponse, data = responseTime \<rparr>
                                 else \<lparr> isHealthy = True,
                                        data = spread (spread [] (Object_entries m))
                                                 responseTime \<rparr>))))"

text \<open>\<^verbatim>\<open>formatMonitorApplicationInformation\<close> (lines 123 to 132).\<close>

definition formatMonitorApplicationInformation ::
  "environment_legacy \<Rightarrow> int \<Rightarrow> monitor_application_legacy \<Rightarrow> health_map_legacy \<Rightarrow> int
   \<Rightarrow> error + string" where
  "formatMonitorApplicationInformation env now monitorApplication monitorApplicationHealthMap
       isAliveTransitionAt =
     reduceE
       (\<lambda>accumulator object.
          if object = JNull then Inl TypeError
          else Inr (accumulator @ ''\<newline>- '' @
                    display env (get_field (Some object) ''name'') @ '': '' @
                    display env (get_field (Some object) ''value'')))
       (''['' @ application_type monitorApplication @ '']\<newline>- Desde: '' @
        dateTimeFormatterUtil_formatDuration env
          (js_divide (of_int (now - isAliveTransitionAt)) 60000))
       (map snd (data monitorApplicationHealthMap))"

text \<open>\<^verbatim>\<open>updateMonitorApplicationAliveStatus\<close> (lines 134 to 149).\<close>

definition updateMonitorApplicationAliveStatus ::
  "monitor_application_legacy \<Rightarrow> bool \<Rightarrow> int \<Rightarrow> monitor_application_legacy list
   \<Rightarrow> error + monitor_application_legacy list" where
  "updateMonitorApplicationAliveStatus monitorApplication isAlive isAliveTransitionAt table =
     (if list_ex (\<lambda>r. row_id r = row_id monitorApplication) table
      then Inr (map (\<lambda>r. if row_id r = row_id monitorApplication
                           then r\<lparr> is_alive := isAlive,
                                  is_alive_transition_notified_by_monitor := True,
                                  is_alive_transition_at := isAliveTransitionAt \<rparr>
                           else r) table)
      else Inl RecordNotFound)"

text \<open>
  An update followed by the formatting of the outcome, as each of the three branches of
  lines 166 to 191 does; the \<^verbatim>\<open>catch\<close> of line 195 logs and returns \<^verbatim>\<open>null\<close>.
\<close>

definition updateAndFormat ::
  "environment_legacy \<Rightarrow> monitor_application_legacy \<Rightarrow> health_map_legacy \<Rightarrow> bool \<Rightarrow> int
   \<Rightarrow> int \<Rightarrow> monitor_application_legacy world
   \<Rightarrow> monitor_application_map_legacy option \<times> monitor_application_legacy world" where
  "updateAndFormat env monitorApplication monitorApplicationHealthMap isAlive isAliveTransitionAt
       formattedAt w =
     (case updateMonitorApplicationAliveStatus monitorApplication isAlive isAliveTransitionAt
             (monitor_applications w) of
        Inl e \<Rightarrow> (None, w\<lparr> logged := logged w @ [e] \<rparr>)
      | Inr table \<Rightarrow>
          (case formatMonitorApplicationInformation env formattedAt monitorApplication
                  monitorApplicationHealthMap isAliveTransitionAt of
             Inl e \<Rightarrow> (None, w\<lparr> monitor_applications := table, logged := logged w @ [e] \<rparr>)
           | Inr text \<Rightarrow>
               (Some \<lparr> isHealthy = isAlive, information = text \<rparr>,
                w\<lparr> monitor_applications := table \<rparr>)))"

text \<open>\<^verbatim>\<open>processMonitorApplication\<close> of the earlier version (lines 151 to 200).\<close>

definition processMonitorApplication_legacy ::
  "environment_legacy \<Rightarrow> bool \<Rightarrow> monitor_application_legacy \<Rightarrow> monitor_application_legacy world
   \<Rightarrow> monitor_application_map_legacy option \<times> monitor_application_legacy world" where
  "processMonitorApplication_legacy env isPeriodicWarn monitorApplication w =
     (let monitorApplicationHealthMap =
            fetchMonitorApplicationHealthMap_legacy env monitorApplication;
          (readAt, formattedAt) = clock env (row_id monitorApplication)
      in if isPeriodicWarn
         then (case formatMonitorApplicationInformation env formattedAt monitorApplication
                      monitorApplicationHealthMap (is_alive_transition_at monitorApplication) of
                 Inl e \<Rightarrow> (None, w\<lparr> logged := logged w @ [e] \<rparr>)
               | Inr text \<Rightarrow>
                   (Some \<lparr> isHealthy = is_alive monitorApplication, information = text \<rparr>, w))
         else if isHealthy monitorApplicationHealthMap \<and> \<not> is_alive monitorApplication
         then updateAndFormat env monitorApplication monitorApplicationHealthMap True readAt
                formattedAt w
         else if \<not> isHealthy monitorApplicationHealthMap \<and> is_alive monitorApplication
         then updateAndFormat env monitorApplication monitorApplicationHealthMap False readAt
                formattedAt w
         else if \<not> is_alive_transition_notified_by_monitor monitorApplication
         then updateAndFormat env monitorApplication monitorApplicationHealthMap
                (is_alive monitorApplication) (is_alive_transition_at monitorApplication)
                formattedAt w
         else (None, w))"

text \<open>
  \<^verbatim>\<open>sendMonitoringReport\<close> (lines 202 to 235): the message has two sections and a footer
  of two lines, and the post is inside a \<^verbatim>\<open>try\<close> whose \<^verbatim>\<open>catch\<close> logs.
\<close>

definition greenCircle :: string where "greenCircle = [CHR 0xF0, CHR 0x9F, CHR 0x9F, CHR 0xA2]"
definition redCircle :: string where "redCircle = [CHR 0xF0, CHR 0x9F, CHR 0x94, CHR 0xB4]"
definition barChart :: string where "barChart = [CHR 0xF0, CHR 0x9F, CHR 0x93, CHR 0x8A]"
definition iAcute :: string where "iAcute = [CHR 0xC3, CHR 0x8D]"

definition reportMessage_legacy :: "string \<Rightarrow> string list \<Rightarrow> string list \<Rightarrow> string" where
  "reportMessage_legacy serverIp onlineList offlineList =
     join []
       [pushpin @ '' *MONITOR DE SERVI'' @ cCedilla @ ''OS* '' @ pushpin,
        if length onlineList > 0
        then ''\<newline>\<newline>'' @ greenCircle @ '' *DISPON'' @ iAcute @ ''VEIS ('' @
             numberToString (length onlineList) @ '')* '' @ greenCircle @
             ''\<newline>\<newline>'' @ join ''\<newline>\<newline>'' onlineList
        else [],
        if length offlineList > 0
        then ''\<newline>\<newline>'' @ redCircle @ '' *INDISPON'' @ iAcute @ ''VEIS ('' @
             numberToString (length offlineList) @ '')* '' @ redCircle @
             ''\<newline>\<newline>'' @ join ''\<newline>\<newline>'' offlineList
        else [],
        ''\<newline>\<newline>'' @ globe @ '' *Servidor:* '' @ serverIp,
        ''\<newline>'' @ barChart @ '' *Total monitorado:* '' @
        numberToString (length onlineList + length offlineList)]"

definition sendMonitoringReport ::
  "environment_legacy \<Rightarrow> string list \<Rightarrow> string list \<Rightarrow> 'row world \<Rightarrow> 'row world" where
  "sendMonitoringReport env onlineList offlineList w =
     (if length onlineList = 0 \<and> length offlineList = 0 then w
      else (let message = reportMessage_legacy (SERVER_IP env) onlineList offlineList
            in if accepts env message
               then w\<lparr> delivered := delivered w @ [message] \<rparr>
               else w\<lparr> logged := logged w @ [DeliveryFailure] \<rparr>))"

text \<open>\<^verbatim>\<open>monitorApplications\<close> of the earlier version (lines 237 to 249); the report is awaited.\<close>

fun processAll_legacy ::
  "environment_legacy \<Rightarrow> bool \<Rightarrow> monitor_application_legacy list
   \<Rightarrow> monitor_application_legacy world
   \<Rightarrow> monitor_application_map_legacy option list \<times> monitor_application_legacy world" where
  "processAll_legacy env isPeriodicWarn [] w = ([], w)"
| "processAll_legacy env isPeriodicWarn (monitorApplication # rest) w =
     (let (monitorApplicationMap, w1) =
            processMonitorApplication_legacy env isPeriodicWarn monitorApplication w;
          (monitorApplicationMapList, w2) = processAll_legacy env isPeriodicWarn rest w1
      in (monitorApplicationMap # monitorApplicationMapList, w2))"

definition monitorApplications_legacy ::
  "environment_legacy \<Rightarrow> bool \<Rightarrow> monitor_application_legacy world
   \<Rightarrow> monitor_application_legacy world" where
  "monitorApplications_legacy env isPeriodicWarn w =
     (let monitorApplicationList =
            filter is_monitor_application_active (monitor_applications w);
          (monitorApplicationMapList, w1) =
            processAll_legacy env isPeriodicWarn monitorApplicationList w;
          monitorApplicationMapFilteredList = List.map_filter (\<lambda>m. m) monitorApplicationMapList
      in sendMonitoringReport env
           (map information (filter isHealthy monitorApplicationMapFilteredList))
           (map information (filter (\<lambda>m. \<not> isHealthy m) monitorApplicationMapFilteredList))
           w1)"

text \<open>
  The key test of line 331: \<^verbatim>\<open>monitorApplicationResponseMapKeySet?.has(key)\<close>.
\<close>

definition inPrev :: "property_map option \<Rightarrow> string \<Rightarrow> bool" where
  "inPrev prev k = (case prev of None \<Rightarrow> False | Some m \<Rightarrow> has (Object_keys m) k)"

text \<open>
  The conditions of lines 333 to 345 under which a key that the stored snapshot has is
  put into \<^verbatim>\<open>propertyModifiedMap\<close>.
\<close>

definition modCond :: "property_map option \<Rightarrow> property_map \<Rightarrow> string \<Rightarrow> bool" where
  "modCond prev cur k =
     (case lookup cur k of
        None \<Rightarrow> False
      | Some p \<Rightarrow>
          inPrev prev k \<and> isObjectType (Some p) \<and> get_field (Some p) ''value'' \<noteq> None \<and>
          truthy (get_field (Some p) ''isListeningModifiedEvent'') \<and>
          valueChanged (get_field (Some p) ''value'')
            (get_field (case prev of None \<Rightarrow> None | Some m \<Rightarrow> lookup m k) ''value''))"

text \<open>
  The partition property as the specification states it: the key sets of added,
  modified and retained are pairwise disjoint, they cover the keys of the current map (the
  synthetic \<^verbatim>\<open>responseTime\<close> key apart), and the synthetic entry is the last entry of
  retained.
\<close>

definition bucketsPartition :: "property_map \<Rightarrow> nat \<Rightarrow> health_map \<Rightarrow> bool" where
  "bucketsPartition cur e h \<longleftrightarrow>
     addedKeys h \<inter> modifiedKeys h = {} \<and>
     addedKeys h \<inter> retainedKeys h = {} \<and>
     modifiedKeys h \<inter> retainedKeys h = {} \<and>
     addedKeys h \<union> modifiedKeys h \<union> (retainedKeys h - {''responseTime''}) = set (Object_keys cur) \<and>
     propertyRetentionMap h \<noteq> [] \<and>
     [last (propertyRetentionMap h)] = defaultRetentionMap e"

text \<open>
  The specification's \<open>watchForChange\<close> is the field \<^verbatim>\<open>isListeningModifiedEvent\<close>;
  it is true when the field is the boolean \<^verbatim>\<open>true\<close>.
\<close>

definition watchForChange :: "json \<Rightarrow> bool" where
  "watchForChange p \<longleftrightarrow> get_field (Some p) ''isListeningModifiedEvent'' = Some (JBool True)"

text \<open>
  \<^verbatim>\<open>property.value\<close>, \<open>None\<close> when it is \<^verbatim>\<open>undefined\<close>.
\<close>

definition propertyValue :: "json \<Rightarrow> json option" where
  "propertyValue p = get_field (Some p) ''value''"

text \<open>
  A current map in which the upstream itself reports a property under the key
  \<^verbatim>\<open>responseTime\<close>.
\<close>

definition upstreamResponseTime :: property_map where
  "upstreamResponseTime =
     [(''responseTime'', JObj [(''name'', JStr ''Latency''), (''value'', JNum 5)])]"

text \<open>
  Example properties and snapshots: a watched counter, an unwatched label.
\<close>

definition countProperty :: "rat \<Rightarrow> json" where
  "countProperty n =
     JObj [(''name'', JStr ''Count''), (''value'', JNum n), (''isListeningModifiedEvent'', JBool True)]"

definition labelProperty :: "string \<Rightarrow> json" where
  "labelProperty s =
     JObj [(''name'', JStr ''Label''), (''value'', JStr s), (''isListeningModifiedEvent'', JBool False)]"

definition previousSnapshot :: property_map where
  "previousSnapshot = [(''count'', countProperty 3), (''label'', labelProperty ''y''), (''gone'', countProperty 0)]"

definition currentSnapshot :: property_map where
  "currentSnapshot = [(''count'', countProperty 5), (''label'', labelProperty ''x''), (''fresh'', countProperty 7)]"

text \<open>
  A snapshot whose only property is an unwatched label under the key \<^verbatim>\<open>constructor\<close>.
\<close>

definition constructorSnapshot :: property_map where
  "constructorSnapshot = [(''constructor'', labelProperty ''x'')]"


text \<open>
  Examples for the witnesses: a string conversion that is JavaScript's on strings and on
  integers, a service that was dead, whose previous snapshot is the example above, its store
  and an environment in which the gateway answers with the current example snapshot, except to the
  request made for the service of id 2, which it reports as down.
\<close>

fun displayExample :: "json option \<Rightarrow> string" where
  "displayExample (Some (JStr s)) = s"
| "displayExample (Some (JNum n)) = integerToString \<lfloor>n\<rfloor>"
| "displayExample v = ''undefined''"

definition exampleService :: monitor_application where
  "exampleService =
     \<lparr> row_id = 1, application_type = ''billing'', is_alive = False,
       is_monitor_application_active = True, is_alive_transition_at = 0, created_at = 0,
       updated_at = 0, api_gateway_api_id = 7, response_map = Some previousSnapshot \<rparr>"

definition exampleWorld :: "monitor_application world" where
  "exampleWorld =
     \<lparr> monitor_applications = [exampleService], logged = [], delivered = [],
       unhandledRejections = [] \<rparr>"

definition exampleEnvironment :: environment where
  "exampleEnvironment =
     \<lparr> SERVER_IP = ''monitor.local'', clock = (\<lambda>i. (5400000, 5400000)),
       display = displayExample, accepts = (\<lambda>message. True),
       api_gateway_apis = [(7, ''billing'')],
       probe = (\<lambda>i. if i = 2
                     then (Some [(''billing'', JObj [(''status'', JBool False)])], 15)
                     else (Some [(''billing'',
                                 JObj [(''status'', JBool True),
                                       (''data'', JObj [(''monitor'', JObj currentSnapshot)])])],
                           15)),
       isAliveInput = (\<lambda>v. Inl ValidationError) \<rparr>"

text \<open>
  Five services that are alive and whose stored snapshot is what the gateway answers.
\<close>

definition quietService :: "nat \<Rightarrow> monitor_application" where
  "quietService i =
     \<lparr> row_id = i, application_type = ''billing'', is_alive = True,
       is_monitor_application_active = True, is_alive_transition_at = 0, created_at = 0,
       updated_at = 0, api_gateway_api_id = 7, response_map = Some currentSnapshot \<rparr>"

definition quietWorld :: "monitor_application world" where
  "quietWorld =
     \<lparr> monitor_applications = map quietService [3, 4, 5, 6, 7], logged = [], delivered = [],
       unhandledRejections = [] \<rparr>"

text \<open>
  Examples for the earlier version: an alive service whose last transition was never
  notified, its store, and an environment in which the gateway reports it as up.
\<close>

definition legacyService :: monitor_application_legacy where
  "legacyService =
     \<lparr> row_id = 1, application_type = ''billing'', is_alive = True,
       is_monitor_application_active = True, is_alive_transition_at = 0, created_at = 0,
       updated_at = 0, apis_id = 7, is_alive_transition_notified_by_monitor = False \<rparr>"

definition legacyWorld :: "monitor_application_legacy world" where
  "legacyWorld =
     \<lparr> monitor_applications = [legacyService], logged = [], delivered = [],
       unhandledRejections = [] \<rparr>"

definition legacyEnvironment :: environment_legacy where
  "legacyEnvironment =
     \<lparr> SERVER_IP = ''monitor.local'', clock = (\<lambda>i. (5400000, 5400000)),
       display = displayExample, accepts = (\<lambda>message. True),
       apis = [(7, ''billing'')],
       probe_legacy = (\<lambda>i. (Some (True, Some [(''billing'',
                                \<lparr> status = True, monitor = None \<rparr>)]), 12)),
       dateTimeFormatterUtil_formatDuration = formatDuration \<rparr>"

text \<open>
  The example service when it is alive, and two environments in which its sub-resource
  is absent: the gateway's answer has no entry of its API's name, or its API row does not
  exist.
\<close>

definition aliveService :: monitor_application where
  "aliveService = exampleService\<lparr> is_alive := True \<rparr>"

definition aliveWorld :: "monitor_application world" where
  "aliveWorld = exampleWorld\<lparr> monitor_applications := [aliveService] \<rparr>"

definition absentEnvironment :: environment where
  "absentEnvironment =
     exampleEnvironment\<lparr> probe := (\<lambda>i. (Some [(''orders'',
                                         JObj [(''status'', JBool True)])], 12)) \<rparr>"

definition unregisteredEnvironment :: environment where
  "unregisteredEnvironment = exampleEnvironment\<lparr> api_gateway_apis := [] \<rparr>"


text \<open>
  What the cycle of the example service yields: its outcome and its row afterwards.
\<close>

definition exampleOutcome :: monitor_application_map where
  "exampleOutcome =
     \<lparr> isHealthy = Some (JBool True),
       messageMap =
         \<lparr> propertyAddedMessage = Some ''[billing]\<newline>+ Count: _7_'',
           propertyModifiedMessage = Some ''[billing]\<newline>~ Count: _5_'',
           propertyRemovedMessage = Some ''[billing]\<newline>- gone'',
           propertyRetentionMessage =
             ''[billing]\<newline>= Desde: _0m_\<newline>= Label: _x_\<newline>= Tempo de resposta: _15.0ms_'' \<rparr> \<rparr>"

definition revivedService :: monitor_application where
  "revivedService =
     exampleService\<lparr> response_map := Some currentSnapshot, is_alive := True,
                      is_alive_transition_at := 5400000, updated_at := 5400000 \<rparr>"

text \<open>
  An environment in which the notification service refuses every message.
\<close>

definition refusingEnvironment :: environment where
  "refusingEnvironment = exampleEnvironment\<lparr> accepts := (\<lambda>message. False) \<rparr>"

text \<open>
  The same absent sub-resource for the earlier version, on a service whose last transition
  was notified.
\<close>

definition legacyAbsentEnvironment :: environment_legacy where
  "legacyAbsentEnvironment =
     legacyEnvironment\<lparr> probe_legacy :=
       (\<lambda>i. (Some (True, Some [(''orders'', \<lparr> status = True, monitor = None \<rparr>)]), 12)) \<rparr>"

definition notifiedService :: monitor_application_legacy where
  "notifiedService = legacyService\<lparr> is_alive_transition_notified_by_monitor := True \<rparr>"

definition notifiedWorld :: "monitor_application_legacy world" where
  "notifiedWorld = legacyWorld\<lparr> monitor_applications := [notifiedService] \<rparr>"

text \<open>
  The shape of the report as the specification words it: the title, then the non-empty
  sections in the order online, offline, added, modified, removed, each with its count in
  its title, then the footer naming the host. \<open>legacyFooter\<close> is the footer of the earlier
  version, which ends with a total.
\<close>

definition reportTitle :: string where
  "reportTitle = pushpin @ '' *MONITOR DE SERVI'' @ cCedilla @ ''OS* '' @ pushpin"

definition reportFooter :: "string \<Rightarrow> string" where
  "reportFooter host = ''\<newline>\<newline>'' @ globe @ '' *Servidor*: _'' @ host @ ''_''"

definition sectionsInOrder :: "report_buckets \<Rightarrow> (string \<times> string \<times> string list) list" where
  "sectionsInOrder b =
     [(highVoltage, ''SERVI'' @ cCedilla @ ''O ONLINE'', serviceOnlineMessageList b),
      (zzz, ''SERVI'' @ cCedilla @ ''O OFFLINE'', serviceOfflineMessageList b),
      (upButton, ''PROP. ADICIONADA'', propertyAddedMessageList b),
      (counterclockwise, ''PROP. MODIFICADA'', propertyModifiedMessageList b),
      (downButton, ''PROP. REMOVIDA'', propertyRemovedMessageList b)]"

definition renderSection :: "string \<times> string \<times> string list \<Rightarrow> string" where
  "renderSection = (\<lambda>(icon, title, messages).
     ''\<newline>\<newline>'' @ icon @ '' *'' @ title @ '' ('' @ numberToString (length messages) @ '')* '' @
     icon @ ''\<newline>\<newline>'' @ join ''\<newline>\<newline>'' messages)"

definition reportShape :: "string \<Rightarrow> report_buckets \<Rightarrow> string" where
  "reportShape host b =
     reportTitle @
     concat (map renderSection
               (filter (\<lambda>(icon, title, messages). messages \<noteq> []) (sectionsInOrder b))) @
     reportFooter host"

definition legacyFooter :: "string \<Rightarrow> nat \<Rightarrow> string" where
  "legacyFooter host n =
     ''\<newline>\<newline>'' @ globe @ '' *Servidor:* '' @ host @
     ''\<newline>'' @ barChart @ '' *Total monitorado:* '' @ numberToString n"

text \<open>
  A tick on three active services: the example service comes back, the service of id 2
  goes down, the third is unchanged. \<open>mixedBuckets\<close> are the lists of that tick.
\<close>

definition mixedWorld :: "monitor_application world" where
  "mixedWorld =
     exampleWorld\<lparr> monitor_applications := [exampleService, quietService 2, quietService 3] \<rparr>"

definition mixedBuckets :: report_buckets where
  "mixedBuckets =
     \<lparr> serviceOnlineMessageList =
         [''[billing]\<newline>= Desde: _0m_\<newline>= Label: _x_\<newline>= Tempo de resposta: _15.0ms_''],
       serviceOfflineMessageList =
         [''[billing]\<newline>= Desde: _0m_\<newline>= Tempo de resposta: _15.0ms_''],
       propertyAddedMessageList = [''[billing]\<newline>+ Count: _7_''],
       propertyModifiedMessageList = [''[billing]\<newline>~ Count: _5_''],
       propertyRemovedMessageList = [''[billing]\<newline>- gone''] \<rparr>"

text \<open>
  A text names a number when the number's decimal digits occur in it; the property line as
  the claim words it has no underscores around the value.
\<close>

definition namesNumber :: "nat \<Rightarrow> string \<Rightarrow> bool" where
  "namesNumber n report \<longleftrightarrow> (\<exists>before after. report = before @ numberToString n @ after)"

definition claimedPropertyLine :: "string \<Rightarrow> string \<Rightarrow> string \<Rightarrow> string" where
  "claimedPropertyLine marker name v = marker @ '' '' @ name @ '': '' @ v"

text \<open>
  The outcome and the row of the service that went down.
\<close>

definition downOutcome :: monitor_application_map where
  "downOutcome =
     \<lparr> isHealthy = Some (JBool False),
       messageMap =
         \<lparr> propertyAddedMessage = None, propertyModifiedMessage = None,
           propertyRemovedMessage = None,
           propertyRetentionMessage =
             ''[billing]\<newline>= Desde: _0m_\<newline>= Tempo de resposta: _15.0ms_'' \<rparr> \<rparr>"

definition downService :: monitor_application where
  "downService =
     (quietService 2)\<lparr> is_alive := False, is_alive_transition_at := 5400000,
                        updated_at := 5400000 \<rparr>"

section \<open>Properties of the duration format\<close>

text \<open>
  The exponent of the rounding is the binary exponent: a positive number lies between
  the power of two of its exponent and the next power.
\<close>

lemma binaryExponent_bounds:
  assumes "0 < x"
  shows "twoTo (binaryExponent x) \<le> x \<and> x < twoTo (binaryExponent x + 1)"
proof (cases "1 \<le> x")
  case True
  define n where "n = nat \<lfloor>x\<rfloor>"
  define w where "w = floorlog 2 n"
  have n: "0 < n" using True by (simp add: n_def)
  from floorlog_bounds [OF n, of 2] have b: "2 ^ (w - 1) \<le> n" "n < 2 ^ w"
    by (simp_all add: w_def)
  have w: "0 < w" using n by (simp add: w_def floorlog_eq_zero_iff Suc_le_eq flip: neq0_conv)
  have e: "binaryExponent x = int w - 1" using True by (simp add: binaryExponent_def n_def w_def)
  have nx: "of_nat n \<le> x" "x < of_nat n + 1"
    using True floor_correct [of x] by (simp_all add: n_def)
  have "(of_nat (2 ^ (w - 1)) :: rat) \<le> of_nat n" using b(1) by (simp only: of_nat_le_iff)
  then have "(2::rat) ^ (w - 1) \<le> of_nat n" by (simp only: of_nat_power of_nat_numeral)
  then have lo: "(2::rat) ^ (w - 1) \<le> x" using nx(1) by (rule order_trans)
  have "n + 1 \<le> 2 ^ w" using b(2) by simp
  then have "(of_nat (n + 1) :: rat) \<le> of_nat (2 ^ w)" by (simp only: of_nat_le_iff)
  then have "(of_nat n :: rat) + 1 \<le> 2 ^ w"
    by (simp only: of_nat_power of_nat_numeral of_nat_add of_nat_1)
  with nx(2) have hi: "x < 2 ^ w" by (rule less_le_trans)
  have "nat (int w - 1) = w - 1" "nat (int w) = w" by simp_all
  then show ?thesis using lo hi w unfolding e by (simp add: twoTo_def)
next
  case False
  define y where "y = 1 / x"
  have y: "1 < y" using False assms by (simp add: y_def)
  define n where "n = nat (\<lceil>y\<rceil> - 1)"
  have c: "2 \<le> \<lceil>y\<rceil>" using y by (simp add: le_ceiling_iff)
  then have n: "0 < n" by (simp add: n_def)
  define w where "w = floorlog 2 n"
  from floorlog_bounds [OF n, of 2] have b: "2 ^ (w - 1) \<le> n" "n < 2 ^ w"
    by (simp_all add: w_def)
  have w: "0 < w" using n by (simp add: w_def floorlog_eq_zero_iff Suc_le_eq flip: neq0_conv)
  have e: "binaryExponent x = - int w" using False by (simp add: binaryExponent_def n_def w_def y_def)
  have ny: "of_nat n < y" "y \<le> of_nat n + 1"
    using c ceiling_correct [of y] by (simp_all add: n_def)
  have "(of_nat (2 ^ (w - 1)) :: rat) \<le> of_nat n" using b(1) by (simp only: of_nat_le_iff)
  then have "(2::rat) ^ (w - 1) \<le> of_nat n" by (simp only: of_nat_power of_nat_numeral)
  then have lo: "(2::rat) ^ (w - 1) < y" using ny(1) by (rule le_less_trans)
  have "n + 1 \<le> 2 ^ w" using b(2) by simp
  then have "(of_nat (n + 1) :: rat) \<le> of_nat (2 ^ w)" by (simp only: of_nat_le_iff)
  then have "(of_nat n :: rat) + 1 \<le> 2 ^ w"
    by (simp only: of_nat_power of_nat_numeral of_nat_add of_nat_1)
  with ny(2) have hi: "y \<le> 2 ^ w" by (rule order_trans)
  have x: "x = 1 / y" using assms by (simp add: y_def)
  have "1 / 2 ^ w \<le> x" unfolding x using hi y by (simp add: field_simps)
  moreover have "x < 1 / 2 ^ (w - 1)" unfolding x using lo y by (simp add: field_simps)
  moreover have "twoTo (- int w + 1) = 1 / 2 ^ (w - 1)"
    using w by (cases w) (simp_all add: twoTo_def)
  ultimately show ?thesis using w unfolding e by (simp add: twoTo_def)
qed

lemma roundHalfEven_bounds:
  "\<lfloor>y\<rfloor> \<le> roundHalfEven y" "of_int (roundHalfEven y) \<le> y + 1 / 2"
  by (auto simp: roundHalfEven_def Let_def) linarith+

lemma roundHalfEven_of_int: "roundHalfEven (of_int n) = n"
  by (simp add: roundHalfEven_def)

lemma binaryExponent_less:
  assumes "0 < x" "x < 2 ^ n" "0 < n"
  shows "binaryExponent x < int n"
proof (cases "1 \<le> x")
  case True
  have "\<lfloor>x\<rfloor> < 2 ^ n" using assms(2) by (simp add: floor_less_iff)
  then have "nat \<lfloor>x\<rfloor> < 2 ^ n" using True
    by (metis nat_less_iff of_nat_numeral of_nat_power zero_le_floor order_trans zero_le_one)
  then have "floorlog 2 (nat \<lfloor>x\<rfloor>) \<le> n" by (simp add: floorlog_le_iff)
  with True show ?thesis by (simp add: binaryExponent_def)
next
  case False
  with assms(3) show ?thesis by (simp add: binaryExponent_def)
qed

lemma twoTo_neg: "e < 0 \<Longrightarrow> twoTo e = 1 / 2 ^ nat (- e)"
  by (simp add: twoTo_def)

text \<open>The floor of a rounded quotient of integers is the integer quotient, when the
  unit of the last place is small against the divisor.\<close>

lemma floor_roundToDouble_quotient:
  fixes t c :: int
  assumes t: "0 \<le> t" and c: "0 < c"
      and bound: "(of_int t :: rat) / of_int c < 2 ^ n" and n: "0 < n" "n \<le> 52"
      and gap: "c < 2 ^ (54 - n)"
  shows "\<lfloor>roundToDouble (of_int t / of_int c)\<rfloor> = t div c"
proof (cases "t = 0")
  case True
  then show ?thesis by (simp add: roundToDouble_def)
next
  case False
  define x :: rat where "x = of_int t / of_int c"
  have xpos: "0 < x" using False t c by (simp add: x_def)
  define k where "k = nat (52 - binaryExponent x)"
  have e: "binaryExponent x < int n" using binaryExponent_less [OF xpos _ n(1)] bound
    by (simp add: x_def)
  then have kge: "53 - n \<le> k" using n by (simp add: k_def)
  have ulp: "twoTo (binaryExponent \<bar>x\<bar> - 52) = 1 / 2 ^ k"
    using e n xpos by (simp add: twoTo_def k_def)
  define y :: rat where "y = x * 2 ^ k"
  have rd: "roundToDouble x = of_int (roundHalfEven y) / 2 ^ k"
    using xpos ulp by (simp add: roundToDouble_def Let_def y_def)
  define N where "N = t div c"
  define r where "r = t mod c"
  have tr: "t = N * c + r" "0 \<le> r" "r < c" using c by (simp_all add: N_def r_def)
  have xN: "x = of_int N + of_int r / of_int c"
    using c tr(1) by (simp add: x_def field_simps)
  have lowx: "of_int N \<le> x" using xN tr(2) c by simp
  have "of_int (N * 2 ^ k) \<le> y" using lowx by (simp add: y_def)
  then have "N * 2 ^ k \<le> \<lfloor>y\<rfloor>" by (simp add: le_floor_iff)
  then have low: "N * 2 ^ k \<le> roundHalfEven y" using roundHalfEven_bounds(1) [of y] by linarith
  have up: "roundHalfEven y < (N + 1) * 2 ^ k"
  proof (cases "r = 0")
    case True
    then have "y = of_int (N * 2 ^ k)" using xN by (simp add: y_def)
    then have "roundHalfEven y = N * 2 ^ k" by (simp only: roundHalfEven_of_int)
    then show ?thesis by (simp add: algebra_simps)
  next
    case False
    have "r + 1 \<le> c" using tr(3) by simp
    then have "(of_int r :: rat) / of_int c \<le> (of_int c - 1) / of_int c"
      using c by (simp add: divide_le_cancel)
    then have xle: "x \<le> of_int N + 1 - 1 / of_int c"
      using c xN by (simp add: field_simps)
    have "2 ^ (54 - n) \<le> (2::int) ^ (k + 1)"
      using kge by (intro power_increasing) simp_all
    with gap have "c < 2 ^ (k + 1)" by simp
    then have "(of_int c :: rat) < 2 ^ (k + 1)"
      by (metis of_int_less_iff of_int_numeral of_int_power)
    then have half: "1 / 2 < (2::rat) ^ k / of_int c"
      using c by (simp add: field_simps)
    have "x * 2 ^ k \<le> (of_int N + 1 - 1 / of_int c) * 2 ^ k"
      using xle by (rule mult_right_mono) simp
    then have "y \<le> (of_int N + 1) * 2 ^ k - 2 ^ k / of_int c"
      by (simp add: y_def algebra_simps)
    with half have "y + 1 / 2 < (of_int N + 1) * 2 ^ k" by linarith
    with roundHalfEven_bounds(2) [of y]
    have "(of_int (roundHalfEven y) :: rat) < of_int ((N + 1) * 2 ^ k)" by simp
    then show ?thesis by (simp only: of_int_less_iff)
  qed
  have "(of_int (N * 2 ^ k) :: rat) \<le> of_int (roundHalfEven y)"
    using low by (simp only: of_int_le_iff)
  then have "(of_int N :: rat) * 2 ^ k \<le> of_int (roundHalfEven y)" by simp
  then have "of_int N \<le> roundToDouble x"
    unfolding rd by (simp add: pos_le_divide_eq)
  moreover have "(of_int (roundHalfEven y) :: rat) < of_int ((N + 1) * 2 ^ k)"
    using up by (simp only: of_int_less_iff)
  then have "(of_int (roundHalfEven y) :: rat) < (of_int N + 1) * 2 ^ k" by simp
  then have "roundToDouble x < of_int N + 1"
    unfolding rd by (simp add: pos_divide_less_eq)
  ultimately have "\<lfloor>roundToDouble x\<rfloor> = N" by (simp add: floor_unique)
  then show ?thesis by (simp add: x_def N_def)
qed

lemma js_trunc_nonneg: "0 \<le> q \<Longrightarrow> js_trunc q = \<lfloor>q\<rfloor>"
  by (simp add: js_trunc_def)

lemma roundToDouble_zero: "roundToDouble 0 = 0"
  by (simp add: roundToDouble_def)

lemma js_divide_zero [simp]: "js_divide 0 b = 0"
  by (simp add: js_divide_def roundToDouble_def)

lemma floor_js_rem:
  fixes q :: rat and c :: int
  assumes q: "0 \<le> q" and c: "0 < c"
  shows "\<lfloor>js_rem q (of_int c)\<rfloor> = \<lfloor>q\<rfloor> mod c"
proof -
  define F where "F = \<lfloor>q\<rfloor>"
  define a where "a = F div c"
  define b where "b = F mod c"
  have F: "of_int F \<le> q" "q < of_int F + 1"
    using floor_correct [of q] by (simp_all add: F_def)
  have Fab: "F = c * a + b" "0 \<le> b" "b < c" using c by (simp_all add: a_def b_def)
  have cr: "(0::rat) < of_int c" using c by simp
  have "c * a \<le> F" using Fab by simp
  then have "(of_int (c * a) :: rat) \<le> of_int F" by (simp only: of_int_le_iff)
  with F(1) have "(of_int a :: rat) * of_int c \<le> q" by (simp add: mult.commute)
  then have lo: "of_int a \<le> q / of_int c" using cr by (simp add: pos_le_divide_eq)
  have "F + 1 \<le> c * a + c" using Fab by simp
  then have "(of_int (F + 1) :: rat) \<le> of_int (c * a + c)" by (simp only: of_int_le_iff)
  with F(2) have "q < (of_int a + 1) * of_int c" by (simp add: algebra_simps)
  then have hi: "q / of_int c < of_int a + 1" using cr by (simp add: pos_divide_less_eq)
  have fl: "\<lfloor>q / of_int c\<rfloor> = a" using lo hi by (simp add: floor_unique)
  have "0 \<le> q / of_int c" using q cr by simp
  then have "js_trunc (q / of_int c) = a" using fl by (simp add: js_trunc_nonneg)
  then have "js_rem q (of_int c) = q - of_int (c * a)" by (simp add: js_rem_def)
  then have "\<lfloor>js_rem q (of_int c)\<rfloor> = F - c * a"
    by (simp only: floor_diff_of_int F_def)
  then show ?thesis using Fab(1) by (simp add: b_def F_def)
qed

lemma days_eq:
  assumes "0 \<le> t" "t < 2 ^ 53"
  shows "\<lfloor>js_divide (of_int t) (60 * 24)\<rfloor> = t div 1440"
proof -
  have "(of_int t :: rat) < 2 ^ 53" using assms(2)
    by (metis of_int_less_iff of_int_numeral of_int_power)
  then have "(of_int t :: rat) / of_int 1440 < 2 ^ 43" by (simp add: pos_divide_less_eq)
  from floor_roundToDouble_quotient [OF assms(1) _ this] show ?thesis
    by (simp add: js_divide_def)
qed

lemma sixty_eq:
  assumes "0 \<le> t" "t < 2 ^ 53"
  shows "\<lfloor>js_divide (of_int t) 60\<rfloor> = t div 60"
proof -
  have "(of_int t :: rat) < 2 ^ 53" using assms(2)
    by (metis of_int_less_iff of_int_numeral of_int_power)
  then have "(of_int t :: rat) / of_int 60 < 2 ^ 48" by (simp add: pos_divide_less_eq)
  from floor_roundToDouble_quotient [OF assms(1) _ this] show ?thesis
    by (simp add: js_divide_def)
qed

lemma minutes_eq:
  assumes "0 \<le> t"
  shows "\<lfloor>js_rem (of_int t) 60\<rfloor> = t mod 60"
  using floor_js_rem [of "of_int t" 60] assms by simp

lemma roundToDouble_nonneg: "0 \<le> x \<Longrightarrow> 0 \<le> roundToDouble x"
proof -
  assume x: "0 \<le> x"
  have t: "0 < twoTo e" for e by (simp add: twoTo_def)
  have "0 \<le> \<lfloor>y\<rfloor>" if "0 \<le> y" for y :: rat using that by simp
  then have r: "0 \<le> roundHalfEven y" if "0 \<le> y" for y
    using roundHalfEven_bounds(1) [of y] that by (meson order_trans)
  show ?thesis
  proof (cases "x = 0")
    case True then show ?thesis by (simp add: roundToDouble_def)
  next
    case False
    with x have "0 < x" by simp
    then show ?thesis
      using t r by (simp add: roundToDouble_def Let_def less_imp_le)
  qed
qed

lemma hours_eq:
  assumes "0 \<le> t" "t < 2 ^ 53"
  shows "\<lfloor>js_rem (js_divide (of_int t) 60) 24\<rfloor> = (t div 60) mod 24"
proof -
  have "0 \<le> js_divide (of_int t) 60"
    using assms(1) by (simp add: js_divide_def roundToDouble_nonneg)
  from floor_js_rem [OF this, of 24] show ?thesis
    using sixty_eq [OF assms] by simp
qed

lemma floorlog_two_eq:
  assumes "2 ^ (w - 1) \<le> x" "x < 2 ^ w"
  shows "floorlog 2 x = w"
proof -
  have "floorlog 2 x \<le> w" using assms(2) by (simp add: floorlog_le_iff)
  moreover have "w \<le> floorlog 2 x" using assms(1) by (intro floorlog_geI) simp_all
  ultimately show ?thesis by simp
qed

lemma roundHalfEven_up:
  "of_int f + 1 / 2 < y \<Longrightarrow> y < of_int f + 1 \<Longrightarrow> roundHalfEven y = f + 1"
proof -
  assume a: "of_int f + 1 / 2 < y" "y < of_int f + 1"
  then have "\<lfloor>y\<rfloor> = f" by (intro floor_unique) simp_all
  with a show ?thesis by (simp add: roundHalfEven_def Let_def)
qed

lemma roundHalfEven_down:
  "of_int f \<le> y \<Longrightarrow> y < of_int f + 1 / 2 \<Longrightarrow> roundHalfEven y = f"
proof -
  assume a: "of_int f \<le> y" "y < of_int f + 1 / 2"
  then have "\<lfloor>y\<rfloor> = f" by (intro floor_unique) simp_all
  with a show ?thesis by (simp add: roundHalfEven_def Let_def)
qed

lemma roundToDouble_normal:
  assumes "of_int n \<le> x" "x < of_int n + 1" "1 \<le> n"
      and "2 ^ (w - 1) \<le> nat n" "nat n < 2 ^ w"
  shows "roundToDouble x =
           twoTo (int w - 53) * of_int (roundHalfEven (x / twoTo (int w - 53)))"
proof -
  have fl: "\<lfloor>x\<rfloor> = n" using assms(1,2) by (intro floor_unique) simp_all
  have x1: "1 \<le> x" using assms(1,3) by (meson of_int_1_le_iff order_trans)
  have "floorlog 2 (nat n) = w" using assms(4,5) by (rule floorlog_two_eq)
  then have e: "binaryExponent x - 52 = int w - 53" using x1 fl by (simp add: binaryExponent_def)
  have ax: "\<bar>x\<bar> = x" "sgn x = 1" "x \<noteq> 0" using x1 by simp_all
  show ?thesis unfolding roundToDouble_def Let_def ax(1,2) e using ax(3) by simp
qed

lemma large_sixty: "js_divide 68733198679390136 60 = 1145553311323169"
proof -
  have "roundToDouble (68733198679390136 / 60) =
          twoTo (int 51 - 53) * of_int (roundHalfEven (68733198679390136 / 60 / twoTo (int 51 - 53)))"
    by (rule roundToDouble_normal [where n = 1145553311323168]) simp_all
  moreover have "roundHalfEven (68733198679390136 / 60 / twoTo (int 51 - 53)) = 4582213245292675 + 1"
    by (rule roundHalfEven_up) (simp_all add: twoTo_def)
  ultimately show ?thesis by (simp add: js_divide_def twoTo_def)
qed

lemma large_days: "\<lfloor>js_divide 68733198679390136 (60 * 24)\<rfloor> = 47731387971798"
proof -
  have "roundToDouble (68733198679390136 / 1440) =
          twoTo (int 46 - 53) * of_int (roundHalfEven (68733198679390136 / 1440 / twoTo (int 46 - 53)))"
    by (rule roundToDouble_normal [where n = 47731387971798]) simp_all
  moreover have "roundHalfEven (68733198679390136 / 1440 / twoTo (int 46 - 53)) = 6109617660390234"
    by (rule roundHalfEven_down) (simp_all add: twoTo_def)
  ultimately have "js_divide 68733198679390136 (60 * 24) = 6109617660390234 / 128"
    by (simp add: js_divide_def twoTo_def)
  then show ?thesis by (simp only:) (rule floor_unique, simp_all)
qed

lemma large_hours: "\<lfloor>js_rem (js_divide 68733198679390136 60) 24\<rfloor> = 17"
  using floor_js_rem [of 1145553311323169 24] by (simp add: large_sixty)

lemma digit_char_not_zero: "0 < d \<Longrightarrow> d < 10 \<Longrightarrow> digit_char d \<noteq> CHR ''0''"
proof -
  assume "0 < d" "d < 10"
  then have "d \<in> {1, 2, 3, 4, 5, 6, 7, 8, 9}" by auto
  then show ?thesis by (auto simp: digit_char_def)
qed

lemma numberToString_digit: "n < 10 \<Longrightarrow> numberToString n = [digit_char n]"
  by (subst numberToString.simps) simp

lemma numberToString_ge10:
  "10 \<le> n \<Longrightarrow> numberToString n = numberToString (n div 10) @ [digit_char (n mod 10)]"
  by (subst numberToString.simps) (simp add: Let_def div_eq_0_iff)

lemma numberToString_nonempty: "numberToString n \<noteq> []"
  by (cases "n < 10") (simp_all add: numberToString_digit numberToString_ge10)

lemma numberToString_hd: "0 < n \<Longrightarrow> hd (numberToString n) \<noteq> CHR ''0''"
proof (induction n rule: less_induct)
  case (less n)
  show ?case
  proof (cases "n < 10")
    case True
    with less.prems show ?thesis by (simp add: numberToString_digit digit_char_not_zero)
  next
    case False
    then have "0 < n div 10" "n div 10 < n" by simp_all
    with less.IH have "hd (numberToString (n div 10)) \<noteq> CHR ''0''" by simp
    with False show ?thesis
      by (simp add: numberToString_ge10 numberToString_nonempty)
  qed
qed

lemma integerToString_pos_hd:
  assumes "0 < n"
  shows "\<exists>c cs. integerToString n = c # cs \<and> c \<noteq> CHR ''0''"
proof -
  have "0 < nat n" using assms by simp
  then have h: "hd (numberToString (nat n)) \<noteq> CHR ''0''" by (rule numberToString_hd)
  obtain c cs where e: "numberToString (nat n) = c # cs"
    using numberToString_nonempty [of "nat n"] by (cases "numberToString (nat n)") auto
  with h have "c \<noteq> CHR ''0''" by simp
  with e assms show ?thesis by (simp add: integerToString_def)
qed

lemma formatDuration_code:
  assumes "0 \<le> m" "m < 2 ^ 53"
  shows "formatDuration m =
     (let t = \<lfloor>m\<rfloor>; days = t div 1440; hours = (t div 60) mod 24; minutes = t mod 60;
          partList = filter_Boolean
            [if days > 0 then Some (integerToString days @ ''d'') else None,
             if hours > 0 then Some (integerToString hours @ ''h'') else None,
             if minutes > 0 then Some (integerToString minutes @ ''m'') else None]
      in if partList \<noteq> [] then join '' '' partList else ''0m'')"
proof -
  have t: "0 \<le> \<lfloor>m\<rfloor>" using assms by simp
  have "m < of_int (2 ^ 53)" using assms(2) by simp
  then have b: "\<lfloor>m\<rfloor> < 2 ^ 53" by (simp only: floor_less_iff)
  show ?thesis
    unfolding formatDuration_def Let_def days_eq [OF t b] hours_eq [OF t b] minutes_eq [OF t] ..
qed

lemma render_duration_nonneg:
  assumes "0 \<le> d" "0 \<le> h" "0 \<le> r"
  shows "render_duration d h r =
     (let partList = filter_Boolean
            [if d > 0 then Some (integerToString d @ ''d'') else None,
             if h > 0 then Some (integerToString h @ ''h'') else None,
             if r > 0 then Some (integerToString r @ ''m'') else None]
      in if partList \<noteq> [] then join '' '' partList else ''0m'')"
  using assms by (cases "d = 0"; cases "h = 0"; cases "r = 0") (simp_all add: render_duration_def)


lemma render_duration_0m:
  assumes "0 \<le> d" "0 \<le> h" "0 \<le> r"
  shows "render_duration d h r = ''0m'' \<longleftrightarrow> d = 0 \<and> h = 0 \<and> r = 0"
proof (cases "d = 0 \<and> h = 0 \<and> r = 0")
  case True
  then show ?thesis by (simp add: render_duration_def)
next
  case False
  have "\<exists>c cs. render_duration d h r = c # cs \<and> c \<noteq> CHR ''0''"
  proof (cases "d = 0")
    case dz: True
    show ?thesis
    proof (cases "h = 0")
      case hz: True
      with dz False assms have "0 < r" by simp
      from integerToString_pos_hd [OF this] dz hz \<open>0 < r\<close> show ?thesis
        by (auto simp: render_duration_def)
    next
      case hn: False
      with assms have "0 < h" by simp
      from integerToString_pos_hd [OF this] dz hn show ?thesis
        by (cases "r = 0") (auto simp: render_duration_def)
    qed
  next
    case dn: False
    with assms have "0 < d" by simp
    from integerToString_pos_hd [OF this] dn show ?thesis
      by (cases "h = 0"; cases "r = 0") (auto simp: render_duration_def)
  qed
  with False show ?thesis by auto
qed


text \<open>
  Claim C10, amended. For every non-negative \<open>m\<close> below \<open>2 ^ 53\<close> (minutes, possibly
  fractional), \<open>formatDuration m\<close> splits \<open>\<lfloor>m\<rfloor>\<close> into \<open>d\<close> days, \<open>h\<close> hours and \<open>r\<close>
  minutes with \<open>d * 1440 + h * 60 + r = \<lfloor>m\<rfloor>\<close>, \<open>0 \<le> h < 24\<close> and \<open>0 \<le> r < 60\<close>, prints
  the non-zero components in the order days, hours, minutes joined by single spaces, and is
  the string \<^verbatim>\<open>0m\<close> exactly when \<open>\<lfloor>m\<rfloor> = 0\<close>.
\<close>

theorem formatDuration_decomposes:
  assumes "0 \<le> m" and "m < 2 ^ 53"
  shows "let t = \<lfloor>m\<rfloor>; d = t div 1440; h = (t div 60) mod 24; r = t mod 60 in
     d * 1440 + h * 60 + r = t \<and> 0 \<le> d \<and> 0 \<le> h \<and> h < 24 \<and> 0 \<le> r \<and> r < 60 \<and>
     formatDuration m = render_duration d h r \<and>
     (formatDuration m = ''0m'' \<longleftrightarrow> t = 0)"
proof -
  define t where "t = \<lfloor>m\<rfloor>"
  define d where "d = t div 1440"
  define h where "h = (t div 60) mod 24"
  define r where "r = t mod 60"
  have t: "0 \<le> t" using assms by (simp add: t_def)
  have d: "0 \<le> d" using t by (simp add: d_def pos_imp_zdiv_nonneg_iff)
  have h: "0 \<le> h" "h < 24" by (simp_all add: h_def)
  have r: "0 \<le> r" "r < 60" by (simp_all add: r_def)
  have "t div 1440 = (t div 60) div 24" by (simp add: div_mult2_eq [symmetric])
  then have sum: "d * 1440 + h * 60 + r = t"
    unfolding d_def h_def r_def by presburger
  have eq: "formatDuration m = render_duration d h r"
    using formatDuration_code [OF assms] render_duration_nonneg [OF d h(1) r(1)]
    by (simp add: Let_def t_def d_def h_def r_def)
  have "d = 0 \<and> h = 0 \<and> r = 0 \<longleftrightarrow> t = 0"
    using sum d h r by arith
  then have zero: "formatDuration m = ''0m'' \<longleftrightarrow> t = 0"
    using eq render_duration_0m [OF d h(1) r(1)] by simp
  show ?thesis
    using sum d h r eq zero unfolding Let_def t_def [symmetric] d_def [symmetric] h_def [symmetric] r_def [symmetric]
    by simp
qed

text \<open>
  The amended C10 at 1442 minutes and a half.
\<close>

theorem formatDuration_decomposes_witness:
  "(0::rat) \<le> 2885 / 2 \<and> (2885 / 2 :: rat) < 2 ^ 53 \<and> formatDuration (2885 / 2) = ''1d 2m''"
proof -
  have "render_duration 1 0 2 = ''1d 2m''"
    by (simp add: render_duration_def integerToString_def numberToString_digit digit_char_def)
  moreover have "\<lfloor>2885 / 2 :: rat\<rfloor> = 1442" by (rule floor_unique) simp_all
  ultimately show ?thesis
    using formatDuration_decomposes [of "2885 / 2"] by (simp add: Let_def)
qed

lemma numberToString_large:
  "numberToString 47731387971798 = ''47731387971798''"
  by (simp add: numberToString_ge10 numberToString_digit digit_char_def)

text \<open>
  Claim C10 as stated fails above \<open>2 ^ 53\<close>. The double 68733198679390136 is a whole
  number of minutes; its quotient by 60 is 1145553311323168.93..., between the neighbouring
  doubles 1145553311323168.75 and 1145553311323169, and is rounded to the latter, whose
  remainder by 24 is 17: the code prints 17 hours, and the hours of the decomposition are
  16.
\<close>

theorem formatDuration_large_counterexample:
  "formatDuration 68733198679390136 = ''47731387971798d 17h 56m'' \<and>
   render_duration (68733198679390136 div 1440) ((68733198679390136 div 60) mod 24)
     (68733198679390136 mod 60) = ''47731387971798d 16h 56m''"
proof -
  have minutes: "\<lfloor>js_rem 68733198679390136 60\<rfloor> = 56"
    using floor_js_rem [of 68733198679390136 60] by simp
  have whole: "(of_int \<lfloor>68733198679390136 :: rat\<rfloor> :: rat) = 68733198679390136" by simp
  have "formatDuration 68733198679390136 = ''47731387971798d 17h 56m''"
    unfolding formatDuration_def Let_def whole large_days large_hours minutes
    by (simp add: integerToString_def numberToString_large numberToString_ge10
        numberToString_digit digit_char_def)
  moreover have "render_duration 47731387971798 16 56 = ''47731387971798d 16h 56m''"
    by (simp add: render_duration_def integerToString_def
        numberToString_large numberToString_ge10 numberToString_digit digit_char_def)
  ultimately show ?thesis by simp
qed

section \<open>Properties of the snapshot differ\<close>

lemma keys_assign: "set (Object_keys (assign k v obj)) = insert k (set (Object_keys obj))"
  by (simp add: Object_keys_def assign_def dom_update)

lemma lookup_assign: "lookup (assign k v obj) k' = (if k' = k then Some v else lookup obj k')"
  by (simp add: lookup_def assign_def update_conv')

lemma lookup_None_iff: "lookup obj k = None \<longleftrightarrow> k \<notin> set (Object_keys obj)"
  by (simp add: lookup_def Object_keys_def map_of_eq_None_iff)

lemma assign_fresh: "k \<notin> set (Object_keys obj) \<Longrightarrow> assign k v obj = obj @ [(k, v)]"
  by (induction obj) (auto simp: assign_def Object_keys_def)

lemma removed_fold:
  "set (foldl (\<lambda>s key. if \<not> has c key then Set_add key s else s) s0 ks)
     = set s0 \<union> (set ks - set c)"
  by (induction ks arbitrary: s0) (auto simp: has_def Set_add_def)

lemma removedKeys_set:
  "set (removedKeys prev cur) =
     (case prev of None \<Rightarrow> {} | Some m \<Rightarrow> set (Object_keys m) - set (Object_keys cur))"
  by (auto simp: removedKeys_def removed_fold split: option.splits)

lemma removedKeySet_snapshotDiff:
  "removedKeySet (snapshotDiff prev cur e) = set (removedKeys prev cur)"
  by (simp add: removedKeySet_def snapshotDiff_def Let_def split: prod.splits)

text \<open>
  Claim C8. The removed set of the differ is exactly the keys of the previous map that
  are not keys of the current map, whatever the values are; it is empty when the previous
  map is \<^verbatim>\<open>null\<close>.
\<close>

theorem removed_is_previous_minus_current:
  "removedKeySet (snapshotDiff None cur e) = {} \<and>
   removedKeySet (snapshotDiff (Some prev) cur e) = set (Object_keys prev) - set (Object_keys cur)"
  by (simp add: removedKeySet_snapshotDiff removedKeys_set)

lemma setProperty_ordinary:
  "k \<noteq> ''__proto__'' \<Longrightarrow>
   setProperty k v obj = obj\<lparr> properties := assign k v (properties obj) \<rparr>"
  by (simp add: setProperty_def)

lemma classifyKey_step:
  "classifyKey prev cur (A, M) k =
     (case lookup cur k of
        None \<Rightarrow> (A, M)
      | Some p \<Rightarrow>
          if \<not> inPrev prev k then (setProperty k p A, M)
          else if modCond prev cur k then (A, setProperty k p M) else (A, M))"
  by (auto simp: classifyKey_def inPrev_def modCond_def Let_def split: option.splits)

lemma classifyKey_ordinary:
  assumes "k \<noteq> ''__proto__''" and "classifyKey prev cur (A0, M0) k = (A1, M1)"
  shows "set (Object_keys (properties A1)) =
           set (Object_keys (properties A0)) \<union>
           (if lookup cur k \<noteq> None \<and> \<not> inPrev prev k then {k} else {})"
    and "set (Object_keys (properties M1)) =
           set (Object_keys (properties M0)) \<union> (if modCond prev cur k then {k} else {})"
    and "proto A1 = proto A0" and "proto M1 = proto M0"
    and "\<forall>k'. lookup (properties A1) k' = lookup (properties A0) k' \<or>
              lookup (properties A1) k' = lookup cur k'"
    and "\<forall>k'. lookup (properties M1) k' = lookup (properties M0) k' \<or>
              lookup (properties M1) k' = lookup cur k'"
  using assms
  by (auto simp: classifyKey_step setProperty_ordinary keys_assign lookup_assign modCond_def
      split: option.splits if_splits)

lemma classify_fold:
  "''__proto__'' \<notin> set ks \<Longrightarrow> foldl (classifyKey prev cur) (A0, M0) ks = (A, M) \<Longrightarrow>
     set (Object_keys (properties A)) =
       set (Object_keys (properties A0)) \<union>
       {k \<in> set ks. lookup cur k \<noteq> None \<and> \<not> inPrev prev k} \<and>
     set (Object_keys (properties M)) =
       set (Object_keys (properties M0)) \<union> {k \<in> set ks. modCond prev cur k} \<and>
     proto A = proto A0 \<and> proto M = proto M0 \<and>
     (\<forall>k. lookup (properties A) k = lookup (properties A0) k \<or>
          lookup (properties A) k = lookup cur k) \<and>
     (\<forall>k. lookup (properties M) k = lookup (properties M0) k \<or>
          lookup (properties M) k = lookup cur k)"
proof (induction ks arbitrary: A0 M0)
  case Nil
  then show ?case by simp
next
  case (Cons k ks)
  obtain A1 M1 where step: "classifyKey prev cur (A0, M0) k = (A1, M1)"
    by (cases "classifyKey prev cur (A0, M0) k")
  have k: "k \<noteq> ''__proto__''" and ks: "''__proto__'' \<notin> set ks" using Cons.prems(1) by auto
  from Cons.prems(2) step have "foldl (classifyKey prev cur) (A1, M1) ks = (A, M)" by simp
  from Cons.IH [OF ks this] have
    A: "set (Object_keys (properties A)) =
          set (Object_keys (properties A1)) \<union>
          {k \<in> set ks. lookup cur k \<noteq> None \<and> \<not> inPrev prev k}" and
    M: "set (Object_keys (properties M)) =
          set (Object_keys (properties M1)) \<union> {k \<in> set ks. modCond prev cur k}" and
    P: "proto A = proto A1" "proto M = proto M1" and
    VA: "\<forall>k. lookup (properties A) k = lookup (properties A1) k \<or>
             lookup (properties A) k = lookup cur k" and
    VM: "\<forall>k. lookup (properties M) k = lookup (properties M1) k \<or>
             lookup (properties M) k = lookup cur k"
    by simp_all
  note one = classifyKey_ordinary [OF k step]
  have "set (Object_keys (properties A)) =
      set (Object_keys (properties A0)) \<union>
      {k' \<in> set (k # ks). lookup cur k' \<noteq> None \<and> \<not> inPrev prev k'}"
    unfolding A one(1) by auto
  moreover have "set (Object_keys (properties M)) =
      set (Object_keys (properties M0)) \<union> {k' \<in> set (k # ks). modCond prev cur k'}"
    unfolding M one(2) by auto
  moreover have "proto A = proto A0" "proto M = proto M0" using P one(3,4) by simp_all
  moreover have "\<forall>k. lookup (properties A) k = lookup (properties A0) k \<or>
      lookup (properties A) k = lookup cur k"
    using VA one(5) by metis
  moreover have "\<forall>k. lookup (properties M) k = lookup (properties M0) k \<or>
      lookup (properties M) k = lookup cur k"
    using VM one(6) by metis
  ultimately show ?case by simp
qed

lemma assign_fold_keys:
  "set (Object_keys (foldl (\<lambda>obj (k, v). assign k v obj) a es)) =
     set (Object_keys a) \<union> set (map fst es)"
  by (induction es arbitrary: a) (auto simp: keys_assign)

lemma fromEntries_keys: "set (Object_keys (fromEntries es)) = set (map fst es)"
  using assign_fold_keys [of "[]" es] by (simp add: fromEntries_def Object_keys_def)

lemma entries_of_keys:
  "set ks \<subseteq> set (Object_keys cur) \<Longrightarrow>
   set (map fst (List.map_filter (\<lambda>key. map_option (Pair key) (lookup cur key)) ks)) = set ks"
proof (induction ks)
  case Nil
  then show ?case by simp
next
  case (Cons k ks)
  then obtain v where "lookup cur k = Some v"
    using lookup_None_iff [of cur k] by (cases "lookup cur k") auto
  with Cons show ?case by simp
qed

lemma retentionMap_keys:
  "set (Object_keys (retentionMap cur A M R (defaultRetentionMap e))) =
     insert ''responseTime''
       {k \<in> set (Object_keys cur).
          \<not> truthyRead (readProperty A k) \<and> \<not> truthyRead (readProperty M k) \<and> \<not> has R k}"
proof -
  let ?ks = "filter (\<lambda>key. \<not> truthyRead (readProperty A key) \<and>
                            \<not> truthyRead (readProperty M key) \<and> \<not> has R key)
               (Object_keys cur)"
  have "set ?ks \<subseteq> set (Object_keys cur)" by auto
  from entries_of_keys [OF this] show ?thesis
    by (simp add: retentionMap_def spread_def defaultRetentionMap_def keys_assign
        fromEntries_keys) 
qed

lemma retentionMap_last:
  assumes "''responseTime'' \<notin> set (Object_keys cur)"
  shows "\<exists>X. retentionMap cur A M R (defaultRetentionMap e) = X @ defaultRetentionMap e"
proof -
  let ?ks = "filter (\<lambda>key. \<not> truthyRead (readProperty A key) \<and>
                            \<not> truthyRead (readProperty M key) \<and> \<not> has R key)
               (Object_keys cur)"
  let ?X = "fromEntries (List.map_filter (\<lambda>key. map_option (Pair key) (lookup cur key)) ?ks)"
  have "set ?ks \<subseteq> set (Object_keys cur)" by auto
  from entries_of_keys [OF this] have "set (Object_keys ?X) = set ?ks"
    by (simp add: fromEntries_keys)
  with assms have "''responseTime'' \<notin> set (Object_keys ?X)" by auto
  then have "retentionMap cur A M R (defaultRetentionMap e) = ?X @ defaultRetentionMap e"
    by (simp add: retentionMap_def spread_def defaultRetentionMap_def assign_fresh)
  then show ?thesis by blast
qed

lemma classifyKeys_sets:
  assumes "classifyKeys prev cur = (A, M)" and "''__proto__'' \<notin> set (Object_keys cur)"
  shows "set (Object_keys (properties A)) = {k \<in> set (Object_keys cur). \<not> inPrev prev k}"
    and "set (Object_keys (properties M)) = {k \<in> set (Object_keys cur). modCond prev cur k}"
    and "\<And>k v. lookup (properties A) k = Some v \<Longrightarrow> lookup cur k = Some v"
    and "\<And>k v. lookup (properties M) k = Some v \<Longrightarrow> lookup cur k = Some v"
    and "proto A = ObjectPrototype" and "proto M = ObjectPrototype"
proof -
  have f: "foldl (classifyKey prev cur) (emptyObject, emptyObject) (Object_keys cur) = (A, M)"
    using assms(1) by (simp add: classifyKeys_def)
  note all = classify_fold [OF assms(2) f]
  from all show "set (Object_keys (properties A)) = {k \<in> set (Object_keys cur). \<not> inPrev prev k}"
    by (auto simp: emptyObject_def Object_keys_def lookup_None_iff)
  from all show "set (Object_keys (properties M)) = {k \<in> set (Object_keys cur). modCond prev cur k}"
    by (simp add: emptyObject_def Object_keys_def)
  from all show "proto A = ObjectPrototype" "proto M = ObjectPrototype"
    by (simp_all add: emptyObject_def)
  from all
  have v: "\<And>k. lookup (properties A) k = None \<or> lookup (properties A) k = lookup cur k"
      "\<And>k. lookup (properties M) k = None \<or> lookup (properties M) k = lookup cur k"
    by (simp_all add: emptyObject_def lookup_def)
  show "lookup cur k = Some v" if "lookup (properties A) k = Some v" for k v
    using v(1) [of k] that by auto
  show "lookup cur k = Some v" if "lookup (properties M) k = Some v" for k v
    using v(2) [of k] that by auto
qed

lemma modCond_inPrev: "modCond prev cur k \<Longrightarrow> inPrev prev k"
  by (auto simp: modCond_def split: option.splits)

lemma snapshotDiff_buckets:
  assumes "classifyKeys prev cur = (A, M)"
  shows "addedKeys (snapshotDiff prev cur e) = set (Object_keys (properties A))"
    and "modifiedKeys (snapshotDiff prev cur e) = set (Object_keys (properties M))"
    and "propertyRetentionMap (snapshotDiff prev cur e) =
           retentionMap cur A M (removedKeys prev cur) (defaultRetentionMap e)"
  using assms by (simp_all add: snapshotDiff_def addedKeys_def modifiedKeys_def Let_def)

lemma not_removed_current: "k \<in> set (Object_keys cur) \<Longrightarrow> \<not> has (removedKeys prev cur) k"
  by (simp add: has_def removedKeys_set split: option.splits)

text \<open>
  A read of an object literal whose prototype is still \<^verbatim>\<open>Object.prototype\<close>, at a
  key that \<^verbatim>\<open>Object.prototype\<close> does not have, finds the own property or nothing.
\<close>

lemma readProperty_ordinary:
  assumes "proto obj = ObjectPrototype" and "k \<notin> set ObjectPrototype_names"
  shows "readProperty obj k =
           (case lookup (properties obj) k of None \<Rightarrow> NotFound | Some v \<Rightarrow> Found v)"
  using assms by (simp add: readProperty_def split: option.splits)

text \<open>
  Claim C1, amended. When every entry of the current map is truthy (as every Property
  object is), the current map has no key named \<^verbatim>\<open>responseTime\<close> and no key of the
  current map is a property name of \<^verbatim>\<open>Object.prototype\<close>, the key sets of added,
  modified and retained are pairwise disjoint, added, modified and retained without
  \<^verbatim>\<open>responseTime\<close> cover exactly the keys of the current map, and the synthetic
  \<^verbatim>\<open>responseTime\<close> entry is the last entry of retained.
\<close>

theorem buckets_partition_current:
  assumes objs: "\<forall>(k, v) \<in> set cur. truthy (Some v)"
      and fresh: "''responseTime'' \<notin> set (Object_keys cur)"
      and ordinary: "set (Object_keys cur) \<inter> set ObjectPrototype_names = {}"
  shows "bucketsPartition cur e (snapshotDiff prev cur e)"
proof -
  obtain A M where AM: "classifyKeys prev cur = (A, M)"
    by (cases "classifyKeys prev cur")
  have "''__proto__'' \<in> set ObjectPrototype_names" by (simp add: ObjectPrototype_names_def)
  with ordinary have np: "''__proto__'' \<notin> set (Object_keys cur)" by auto
  note sets = classifyKeys_sets [OF AM np]
  note h = snapshotDiff_buckets [OF AM, of e]
  have tA: "truthyRead (readProperty A k) \<longleftrightarrow> k \<in> set (Object_keys (properties A))"
    if k: "k \<in> set (Object_keys cur)" for k
  proof -
    have n: "k \<notin> set ObjectPrototype_names" using k ordinary by auto
    show ?thesis
    proof (cases "lookup (properties A) k")
      case None
      then show ?thesis
        using lookup_None_iff [of "properties A" k] readProperty_ordinary [OF sets(5) n] by simp
    next
      case (Some v)
      then have "(k, v) \<in> set cur" using sets(3) by (auto simp: lookup_def dest: map_of_SomeD)
      with objs Some show ?thesis
        using lookup_None_iff [of "properties A" k] readProperty_ordinary [OF sets(5) n] by auto
    qed
  qed
  have tM: "truthyRead (readProperty M k) \<longleftrightarrow> k \<in> set (Object_keys (properties M))"
    if k: "k \<in> set (Object_keys cur)" for k
  proof -
    have n: "k \<notin> set ObjectPrototype_names" using k ordinary by auto
    show ?thesis
    proof (cases "lookup (properties M) k")
      case None
      then show ?thesis
        using lookup_None_iff [of "properties M" k] readProperty_ordinary [OF sets(6) n] by simp
    next
      case (Some v)
      then have "(k, v) \<in> set cur" using sets(4) by (auto simp: lookup_def dest: map_of_SomeD)
      with objs Some show ?thesis
        using lookup_None_iff [of "properties M" k] readProperty_ordinary [OF sets(6) n] by auto
    qed
  qed
  have R: "retainedKeys (snapshotDiff prev cur e) =
      insert ''responseTime''
        {k \<in> set (Object_keys cur).
           k \<notin> set (Object_keys (properties A)) \<and> k \<notin> set (Object_keys (properties M))}"
    unfolding retainedKeys_def h(3) retentionMap_keys
    using not_removed_current [of _ cur prev] by (auto simp: tA tM)
  have disj: "set (Object_keys (properties A)) \<inter> set (Object_keys (properties M)) = {}"
    unfolding sets(1,2) using modCond_inPrev by auto
  obtain X where X: "propertyRetentionMap (snapshotDiff prev cur e) = X @ defaultRetentionMap e"
    using retentionMap_last [OF fresh] h(3) by metis
  have last: "propertyRetentionMap (snapshotDiff prev cur e) \<noteq> []"
    "[last (propertyRetentionMap (snapshotDiff prev cur e))] = defaultRetentionMap e"
    unfolding X by (simp_all add: defaultRetentionMap_def)
  have sub: "set (Object_keys (properties A)) \<subseteq> set (Object_keys cur)"
    "set (Object_keys (properties M)) \<subseteq> set (Object_keys cur)"
    unfolding sets(1,2) by auto
  show ?thesis
    unfolding bucketsPartition_def h(1,2) R
    using disj fresh sub last by auto
qed

lemmas differ_defs =
  snapshotDiff_def classifyKeys_def classifyKey_def removedKeys_def retentionMap_def
  defaultRetentionMap_def emptyObject_def setProperty_def accessorFound_def readProperty_def
  ObjectPrototype_names_def Object_keys_def lookup_def assign_def has_def Set_add_def
  fromEntries_def spread_def valueChanged_def

text \<open>
  Claim C1 as stated fails when the upstream reports a property under the key
  \<^verbatim>\<open>responseTime\<close>: with no previous snapshot the key is added, and the synthetic entry
  puts the same key into retained. It also fails at a key that \<^verbatim>\<open>Object.prototype\<close>
  has: the key \<^verbatim>\<open>constructor\<close> of an unchanged snapshot is in no bucket.
\<close>

theorem buckets_partition_counterexample:
  "\<not> bucketsPartition upstreamResponseTime 12 (snapshotDiff None upstreamResponseTime 12) \<and>
   \<not> bucketsPartition constructorSnapshot 12
         (snapshotDiff (Some constructorSnapshot) constructorSnapshot 12)"
  by (simp add: bucketsPartition_def differ_defs upstreamResponseTime_def
      constructorSnapshot_def labelProperty_def addedKeys_def modifiedKeys_def retainedKeys_def)

text \<open>
  Claim C2 at a key that \<^verbatim>\<open>Object.prototype\<close> has. The unwatched property under
  \<^verbatim>\<open>constructor\<close> is in both maps; line 365 reads \<^verbatim>\<open>propertyAddedMap[key]\<close>, finds
  the inherited constructor function, which is truthy, and drops the key: it is neither
  modified nor retained. The watched counter under \<^verbatim>\<open>__proto__\<close> went from 3 to 5; line
  346 writes \<^verbatim>\<open>propertyModifiedMap[key]\<close>, which replaces the prototype of the literal
  and defines no own property: the key is not modified.
\<close>

theorem inherited_name_in_no_bucket:
  "lookup constructorSnapshot ''constructor'' = Some (labelProperty ''x'') \<and>
   \<not> watchForChange (labelProperty ''x'') \<and>
   snapshotDiff (Some constructorSnapshot) constructorSnapshot 12 =
     \<lparr> isHealthy = Some (JBool True), responseMap = Some constructorSnapshot,
       propertyAddedMap = Some [], propertyModifiedMap = Some [],
       propertyRemovedSet = Some [], propertyRetentionMap = defaultRetentionMap 12 \<rparr> \<and>
   watchForChange (countProperty 5) \<and>
   propertyValue (countProperty 5) = Some (JNum 5) \<and>
   propertyValue (countProperty 3) = Some (JNum 3) \<and>
   snapshotDiff (Some [(''__proto__'', countProperty 3)]) [(''__proto__'', countProperty 5)] 12 =
     \<lparr> isHealthy = Some (JBool True), responseMap = Some [(''__proto__'', countProperty 5)],
       propertyAddedMap = Some [], propertyModifiedMap = Some [],
       propertyRemovedSet = Some [], propertyRetentionMap = defaultRetentionMap 12 \<rparr>"
  by (simp add: differ_defs constructorSnapshot_def labelProperty_def countProperty_def
      watchForChange_def propertyValue_def)

text \<open>
  The hypotheses of the amended C1 hold at the example snapshots.
\<close>

theorem buckets_partition_current_witness:
  "bucketsPartition currentSnapshot 12 (snapshotDiff (Some previousSnapshot) currentSnapshot 12)"
  by (rule buckets_partition_current)
     (simp_all add: currentSnapshot_def countProperty_def labelProperty_def Object_keys_def
        ObjectPrototype_names_def)

text \<open>
  C8 at the example snapshots.
\<close>

theorem removed_is_previous_minus_current_witness:
  "removedKeySet (snapshotDiff (Some previousSnapshot) currentSnapshot 12) = {''gone''}"
  using removed_is_previous_minus_current [of currentSnapshot 12 previousSnapshot]
  by (auto simp: previousSnapshot_def currentSnapshot_def Object_keys_def)

section \<open>Properties of the availability state and of the cycle\<close>




lemma example_fetch:
  "fetchMonitorApplicationHealthMap exampleEnvironment exampleService =
     Inr (snapshotDiff (Some previousSnapshot) currentSnapshot 15)"
  by (simp add: fetchMonitorApplicationHealthMap_def exampleEnvironment_def exampleService_def
      currentSnapshot_def)



lemma processMonitorApplication_effects:
  "delivered (snd (processMonitorApplication env p m w)) = delivered w \<and>
   unhandledRejections (snd (processMonitorApplication env p m w)) = unhandledRejections w"
  by (simp add: processMonitorApplication_def Let_def split: sum.splits prod.splits)

lemma processAll_effects:
  "delivered (snd (processAll env p ms w)) = delivered w \<and>
   unhandledRejections (snd (processAll env p ms w)) = unhandledRejections w"
proof (induction ms arbitrary: w)
  case Nil
  then show ?case by simp
next
  case (Cons m ms)
  show ?case
    using Cons.IH [of "snd (processMonitorApplication env p m w)"]
      processMonitorApplication_effects [of env p m w]
    by (simp add: Let_def split_beta)
qed

lemma cycleBuckets_all_None: "\<forall>r \<in> set rs. r = None \<Longrightarrow> cycleBuckets rs = emptyBuckets"
  by (induction rs) (simp_all add: cycleBuckets_def List.map_filter_simps)

text \<open>
  Claim C9. On a change-driven tick on which every processed service yields
  \<^verbatim>\<open>null\<close>, the five lists are empty, no message is delivered and no delivery is
  attempted (no rejection either).
\<close>

theorem no_report_when_nothing_reportable:
  assumes run: "processAll env False
                  (filter is_monitor_application_active (monitor_applications w)) w = (rs, w1)"
      and none: "\<forall>r \<in> set rs. r = None"
  shows "cycleBuckets rs = emptyBuckets \<and>
         delivered (monitorApplications env False w) = delivered w \<and>
         unhandledRejections (monitorApplications env False w) = unhandledRejections w"
proof -
  have b: "cycleBuckets rs = emptyBuckets" using none by (rule cycleBuckets_all_None)
  have w1: "delivered w1 = delivered w" "unhandledRejections w1 = unhandledRejections w"
    using processAll_effects [of env False "filter is_monitor_application_active (monitor_applications w)" w]
      run by simp_all
  have "monitorApplications env False w = w1"
    using run b
    by (simp add: monitorApplications_def sendApplicationMonitoringReport_def emptyBuckets_def)
  with b w1 show ?thesis by simp
qed

lemma quiet_process:
  "i \<noteq> 2 \<Longrightarrow>
   processMonitorApplication exampleEnvironment False (quietService i) w = (None, w)"
  by (simp add: processMonitorApplication_def fetchMonitorApplicationHealthMap_def
      exampleEnvironment_def quietService_def currentSnapshot_def countProperty_def
      labelProperty_def differ_defs Let_def)

text \<open>
  C9 at five healthy, unchanged services.
\<close>

theorem no_report_when_nothing_reportable_witness:
  "delivered (monitorApplications exampleEnvironment False quietWorld) = [] \<and>
   unhandledRejections (monitorApplications exampleEnvironment False quietWorld) = []"
proof -
  have "processAll exampleEnvironment False
          (filter is_monitor_application_active (monitor_applications quietWorld)) quietWorld =
        ([None, None, None, None, None], quietWorld)"
    by (simp add: quietWorld_def quiet_process) (simp add: quietService_def)
  from no_report_when_nothing_reportable [OF this] show ?thesis
    by (simp add: quietWorld_def)
qed

section \<open>Properties of the earlier version, of failures and of the report\<close>







text \<open>
  Claim C5 fails on the code: when the gateway's answer has no entry of the service's API
  name, or the API row does not exist, line 316 reads \<^verbatim>\<open>subResponse.status\<close> of
  \<^verbatim>\<open>undefined\<close> or \<^verbatim>\<open>null\<close>; the fetch raises, the cycle of the service logs the
  error and yields \<^verbatim>\<open>null\<close>, the service stays alive in the store and nothing is
  reported.
\<close>

theorem absent_subresource_raises:
  "fetchMonitorApplicationHealthMap absentEnvironment aliveService = Inl TypeError \<and>
   fetchMonitorApplicationHealthMap unregisteredEnvironment aliveService = Inl TypeError \<and>
   monitorApplications absentEnvironment False aliveWorld = aliveWorld\<lparr> logged := [TypeError] \<rparr> \<and>
   monitorApplications unregisteredEnvironment False aliveWorld =
     aliveWorld\<lparr> logged := [TypeError] \<rparr>"
proof -
  have a: "fetchMonitorApplicationHealthMap absentEnvironment aliveService = Inl TypeError"
    by (simp add: fetchMonitorApplicationHealthMap_def absentEnvironment_def
        exampleEnvironment_def aliveService_def exampleService_def ObjectPrototype_names_def)
  have u: "fetchMonitorApplicationHealthMap unregisteredEnvironment aliveService = Inl TypeError"
    by (simp add: fetchMonitorApplicationHealthMap_def unregisteredEnvironment_def
        exampleEnvironment_def aliveService_def exampleService_def)
  have active: "filter is_monitor_application_active (monitor_applications aliveWorld) =
      [aliveService]"
    by (simp add: aliveWorld_def aliveService_def exampleService_def)
  have "monitorApplications absentEnvironment False aliveWorld =
      aliveWorld\<lparr> logged := [TypeError] \<rparr>"
    using a active
    by (simp add: monitorApplications_def processMonitorApplication_def cycleBuckets_def
        sendApplicationMonitoringReport_def emptyBuckets_def List.map_filter_simps)
       (simp add: aliveWorld_def exampleWorld_def)
  moreover have "monitorApplications unregisteredEnvironment False aliveWorld =
      aliveWorld\<lparr> logged := [TypeError] \<rparr>"
    using u active
    by (simp add: monitorApplications_def processMonitorApplication_def cycleBuckets_def
        sendApplicationMonitoringReport_def emptyBuckets_def List.map_filter_simps)
       (simp add: aliveWorld_def exampleWorld_def)
  ultimately show ?thesis using a u by simp
qed

lemma example_diff:
  "snapshotDiff (Some previousSnapshot) currentSnapshot 15 =
     \<lparr> isHealthy = Some (JBool True), responseMap = Some currentSnapshot,
       propertyAddedMap = Some [(''fresh'', countProperty 7)],
       propertyModifiedMap = Some [(''count'', countProperty 5)],
       propertyRemovedSet = Some [''gone''],
       propertyRetentionMap = [(''label'', labelProperty ''x'')] @ defaultRetentionMap 15 \<rparr>"
  by (simp add: differ_defs previousSnapshot_def currentSnapshot_def
      countProperty_def labelProperty_def List.map_filter_simps Let_def)

lemma formatDuration_zero: "formatDuration 0 = ''0m''"
  by (simp add: formatDuration_def js_rem_def js_trunc_def js_divide_zero)

lemma example_format:
  "formatMonitorApplicationMessageMap displayExample 5400000 exampleService
     (snapshotDiff (Some previousSnapshot) currentSnapshot 15) (Some 5400000) =
   Inr (messageMap exampleOutcome)"
  unfolding example_diff
  by (simp add: formatMonitorApplicationMessageMap_def propertyMessage_def propertyLine_def
      bindE_def exampleOutcome_def exampleService_def countProperty_def labelProperty_def
      defaultRetentionMap_def Object_keys_def formatDuration_zero
      numberToString_ge10 numberToString_digit digit_char_def integerToString_def)

lemma example_process:
  "processMonitorApplication (exampleEnvironment\<lparr> accepts := a \<rparr>) False exampleService
     exampleWorld =
   (Some exampleOutcome, exampleWorld\<lparr> monitor_applications := [revivedService] \<rparr>)"
proof -
  have f: "fetchMonitorApplicationHealthMap (exampleEnvironment\<lparr> accepts := a \<rparr>) exampleService =
      Inr (snapshotDiff (Some previousSnapshot) currentSnapshot 15)"
    by (simp add: fetchMonitorApplicationHealthMap_def exampleEnvironment_def exampleService_def
        currentSnapshot_def)
  have d: "display (exampleEnvironment\<lparr> accepts := a \<rparr>) = displayExample"
      "clock (exampleEnvironment\<lparr> accepts := a \<rparr>) (row_id exampleService) = (5400000, 5400000)"
    by (simp_all add: exampleEnvironment_def)
  have u: "\<And>f. updateMonitorApplication f exampleService (Some (JBool True)) 5400000 5400000
             (Some currentSnapshot)
             (monitor_applications exampleWorld) = Inr [revivedService]"
    by (simp add: updateMonitorApplication_def exampleWorld_def revivedService_def
        exampleService_def)
  have h: "isHealthy (snapshotDiff (Some previousSnapshot) currentSnapshot 15) = Some (JBool True)"
      "responseMap (snapshotDiff (Some previousSnapshot) currentSnapshot 15) = Some currentSnapshot"
    by (simp_all add: example_diff)
  have dead: "\<not> is_alive exampleService" by (simp add: exampleService_def)
  show ?thesis
    unfolding processMonitorApplication_def f
    using d u h dead example_format
    by (simp add: Let_def exampleOutcome_def)
qed

lemma example_buckets:
  "cycleBuckets [Some exampleOutcome] =
     \<lparr> serviceOnlineMessageList = [propertyRetentionMessage (messageMap exampleOutcome)],
       serviceOfflineMessageList = [],
       propertyAddedMessageList = [''[billing]\<newline>+ Count: _7_''],
       propertyModifiedMessageList = [''[billing]\<newline>~ Count: _5_''],
       propertyRemovedMessageList = [''[billing]\<newline>- gone''] \<rparr>"
  by (simp add: cycleBuckets_def collectMessages_def pushIfTruthy_def emptyBuckets_def
      exampleOutcome_def List.map_filter_simps)

lemma example_active:
  "filter is_monitor_application_active (monitor_applications exampleWorld) = [exampleService]"
  by (simp add: exampleWorld_def exampleService_def)

text \<open>
  Claim C7 fails on the code: when the notification service refuses the message, nothing is
  logged and the rejection of \<^verbatim>\<open>sendApplicationMonitoringReport\<close>, which line 572 does
  not await, is handled by nothing.
\<close>

theorem delivery_failure_is_unhandled:
  "logged (monitorApplications refusingEnvironment False exampleWorld) = [] \<and>
   delivered (monitorApplications refusingEnvironment False exampleWorld) = [] \<and>
   unhandledRejections (monitorApplications refusingEnvironment False exampleWorld) =
     [DeliveryFailure]"
  unfolding refusingEnvironment_def monitorApplications_def example_active
  by (simp add: example_process example_buckets sendApplicationMonitoringReport_def)
     (simp add: exampleWorld_def)

lemma legacy_absent_fetch:
  "fetchMonitorApplicationHealthMap_legacy (legacyAbsentEnvironment\<lparr> accepts := a \<rparr>)
     notifiedService = \<lparr> isHealthy = False, data = defaultRetentionMap 12 \<rparr>"
  by (simp add: fetchMonitorApplicationHealthMap_legacy_def legacyAbsentEnvironment_def
      legacyEnvironment_def notifiedService_def legacyService_def)

lemma legacy_absent_process:
  "processMonitorApplication_legacy (legacyAbsentEnvironment\<lparr> accepts := a \<rparr>) False
     notifiedService notifiedWorld =
   (Some \<lparr> isHealthy = False,
            information = ''[billing]\<newline>- Desde: 0m\<newline>- Tempo de resposta: 12.0ms'' \<rparr>,
    notifiedWorld\<lparr> monitor_applications :=
      [notifiedService\<lparr> is_alive := False, is_alive_transition_at := 5400000 \<rparr>] \<rparr>)"
  unfolding processMonitorApplication_legacy_def legacy_absent_fetch
  by (simp add: updateAndFormat_def updateMonitorApplicationAliveStatus_def
      formatMonitorApplicationInformation_def legacyAbsentEnvironment_def legacyEnvironment_def
      notifiedService_def legacyService_def notifiedWorld_def legacyWorld_def
      defaultRetentionMap_def formatDuration_zero numberToString_ge10 numberToString_digit
      digit_char_def)

text \<open>
  The earlier version does what C5 says: the absent sub-resource is \<^verbatim>\<open>isHealthy: false\<close>,
  the alive service becomes dead and is reported in the offline section.
\<close>

lemma legacy_absent_subresource_unreachable:
  "monitorApplications_legacy legacyAbsentEnvironment False notifiedWorld =
     notifiedWorld\<lparr>
       monitor_applications :=
         [notifiedService\<lparr> is_alive := False, is_alive_transition_at := 5400000 \<rparr>],
       delivered :=
         [reportMessage_legacy ''monitor.local'' []
            [''[billing]\<newline>- Desde: 0m\<newline>- Tempo de resposta: 12.0ms'']] \<rparr>"
proof -
  have active: "filter is_monitor_application_active (monitor_applications notifiedWorld) =
      [notifiedService]"
    by (simp add: notifiedWorld_def notifiedService_def legacyService_def)
  have env: "legacyAbsentEnvironment = legacyAbsentEnvironment\<lparr> accepts := accepts legacyAbsentEnvironment \<rparr>"
    by simp
  have p: "processMonitorApplication_legacy legacyAbsentEnvironment False notifiedService
      notifiedWorld =
    (Some \<lparr> isHealthy = False,
            information = ''[billing]\<newline>- Desde: 0m\<newline>- Tempo de resposta: 12.0ms'' \<rparr>,
     notifiedWorld\<lparr> monitor_applications :=
       [notifiedService\<lparr> is_alive := False, is_alive_transition_at := 5400000 \<rparr>] \<rparr>)"
    using legacy_absent_process [of "accepts legacyAbsentEnvironment"] by simp
  show ?thesis
    unfolding monitorApplications_legacy_def active
    by (simp add: p sendMonitoringReport_def List.map_filter_simps)
       (simp add: legacyAbsentEnvironment_def legacyEnvironment_def notifiedWorld_def
        legacyWorld_def)
qed

text \<open>
  The earlier version does what C7 says: the refused delivery is logged and the cycle ends
  normally.
\<close>

lemma legacy_delivery_failure_logged:
  "monitorApplications_legacy (legacyAbsentEnvironment\<lparr> accepts := (\<lambda>message. False) \<rparr>) False
     notifiedWorld =
     notifiedWorld\<lparr>
       monitor_applications :=
         [notifiedService\<lparr> is_alive := False, is_alive_transition_at := 5400000 \<rparr>],
       logged := [DeliveryFailure] \<rparr>"
proof -
  have active: "filter is_monitor_application_active (monitor_applications notifiedWorld) =
      [notifiedService]"
    by (simp add: notifiedWorld_def notifiedService_def legacyService_def)
  show ?thesis
    unfolding monitorApplications_legacy_def active
    by (simp add: legacy_absent_process sendMonitoringReport_def List.map_filter_simps)
       (simp add: notifiedWorld_def legacyWorld_def)
qed

lemma join_empty_separator: "join [] xs = concat xs"
proof (induction xs)
  case Nil
  then show ?case by simp
next
  case (Cons x xs)
  then show ?case by (cases xs) simp_all
qed

lemma reportMessage_shape: "reportMessage host b = reportShape host b"
proof -
  have pin: "pushpin \<noteq> []" by (simp add: pushpin_def)
  show ?thesis
    unfolding reportMessage_def reportShape_def sectionsInOrder_def join_empty_separator
    using pin
    by (cases "serviceOnlineMessageList b = []"; cases "serviceOfflineMessageList b = []";
        cases "propertyAddedMessageList b = []"; cases "propertyModifiedMessageList b = []";
        cases "propertyRemovedMessageList b = []")
       (simp_all add: renderSection_def reportTitle_def reportFooter_def)
qed

text \<open>
  Claim C6, amended. The report is the title, the non-empty sections in the order online,
  offline, added, modified, removed, each title with the count of its list, and a footer
  naming the host; the line of a property is the marker, the name, a colon and the value
  between underscores; the report of the earlier version ends with a footer naming the
  host and the number of services reported, online plus offline.
\<close>

theorem report_has_fixed_shape:
  "reportMessage host b = reportShape host b \<and>
   propertyLine disp marker accumulator (JObj kvs) =
     Inr (accumulator @ ''\<newline>'' @ marker @ '' '' @ disp (map_of kvs ''name'') @ '': _'' @
          disp (map_of kvs ''value'') @ ''_'') \<and>
   (\<exists>body. reportMessage_legacy host onlineList offlineList =
             body @ legacyFooter host (length onlineList + length offlineList))"
proof -
  let ?body = "concat
      [pushpin @ '' *MONITOR DE SERVI'' @ cCedilla @ ''OS* '' @ pushpin,
       if length onlineList > 0
       then ''\<newline>\<newline>'' @ greenCircle @ '' *DISPON'' @ iAcute @ ''VEIS ('' @
            numberToString (length onlineList) @ '')* '' @ greenCircle @
            ''\<newline>\<newline>'' @ join ''\<newline>\<newline>'' onlineList
       else [],
       if length offlineList > 0
       then ''\<newline>\<newline>'' @ redCircle @ '' *INDISPON'' @ iAcute @ ''VEIS ('' @
            numberToString (length offlineList) @ '')* '' @ redCircle @
            ''\<newline>\<newline>'' @ join ''\<newline>\<newline>'' offlineList
       else []]"
  have "reportMessage_legacy host onlineList offlineList =
          ?body @ legacyFooter host (length onlineList + length offlineList)"
    unfolding reportMessage_legacy_def join_empty_separator legacyFooter_def by simp
  then have "\<exists>body. reportMessage_legacy host onlineList offlineList =
             body @ legacyFooter host (length onlineList + length offlineList)"
    by (rule exI)
  then show ?thesis
    by (simp add: reportMessage_shape propertyLine_def)
qed

lemma down_fetch:
  "fetchMonitorApplicationHealthMap exampleEnvironment (quietService 2) =
     Inr \<lparr> isHealthy = Some (JBool False), responseMap = None, propertyAddedMap = None,
           propertyModifiedMap = None, propertyRemovedSet = None,
           propertyRetentionMap = defaultRetentionMap 15 \<rparr>"
  by (simp add: fetchMonitorApplicationHealthMap_def exampleEnvironment_def quietService_def)

lemma mixed_first:
  "processMonitorApplication exampleEnvironment False exampleService mixedWorld =
     (Some exampleOutcome,
      mixedWorld\<lparr> monitor_applications := [revivedService, quietService 2, quietService 3] \<rparr>)"
proof -
  have u: "\<And>f. updateMonitorApplication f exampleService (Some (JBool True)) 5400000 5400000
             (Some currentSnapshot)
             (monitor_applications mixedWorld) =
           Inr [revivedService, quietService 2, quietService 3]"
    by (simp add: updateMonitorApplication_def mixedWorld_def exampleWorld_def
        revivedService_def exampleService_def quietService_def)
  have h: "isHealthy (snapshotDiff (Some previousSnapshot) currentSnapshot 15) = Some (JBool True)"
      "responseMap (snapshotDiff (Some previousSnapshot) currentSnapshot 15) = Some currentSnapshot"
    by (simp_all add: example_diff)
  have d: "display exampleEnvironment = displayExample"
      "clock exampleEnvironment (row_id exampleService) = (5400000, 5400000)"
    by (simp_all add: exampleEnvironment_def)
  have dead: "\<not> is_alive exampleService" by (simp add: exampleService_def)
  show ?thesis
    unfolding processMonitorApplication_def example_fetch
    using d u h dead example_format
    by (simp add: Let_def exampleOutcome_def)
qed

lemma mixed_second:
  "processMonitorApplication exampleEnvironment False (quietService 2)
     (mixedWorld\<lparr> monitor_applications := [revivedService, quietService 2, quietService 3] \<rparr>) =
     (Some downOutcome,
      mixedWorld\<lparr> monitor_applications := [revivedService, downService, quietService 3] \<rparr>)"
  unfolding processMonitorApplication_def down_fetch
  by (simp add: updateMonitorApplication_def formatMonitorApplicationMessageMap_def
      propertyMessage_def propertyLine_def bindE_def downOutcome_def downService_def
      quietService_def revivedService_def exampleService_def exampleEnvironment_def
      mixedWorld_def exampleWorld_def defaultRetentionMap_def formatDuration_zero
      numberToString_ge10 numberToString_digit digit_char_def)

lemma mixed_run:
  "processAll exampleEnvironment False
     (filter is_monitor_application_active (monitor_applications mixedWorld)) mixedWorld =
   ([Some exampleOutcome, Some downOutcome, None],
    mixedWorld\<lparr> monitor_applications := [revivedService, downService, quietService 3] \<rparr>)"
proof -
  have active: "filter is_monitor_application_active (monitor_applications mixedWorld) =
      [exampleService, quietService 2, quietService 3]"
    by (simp add: mixedWorld_def exampleService_def quietService_def)
  show ?thesis
    unfolding active by (simp add: mixed_first mixed_second quiet_process)
qed

lemma mixed_buckets:
  "cycleBuckets [Some exampleOutcome, Some downOutcome, None] = mixedBuckets"
  by (simp add: cycleBuckets_def collectMessages_def pushIfTruthy_def emptyBuckets_def
      exampleOutcome_def downOutcome_def mixedBuckets_def List.map_filter_simps)

lemma monitorApplications_run:
  assumes "processAll env p (filter is_monitor_application_active (monitor_applications w)) w
             = (rs, w1)"
  shows "monitorApplications env p w =
           (case sendApplicationMonitoringReport env (cycleBuckets rs) w1 of
              (Inl e, w2) \<Rightarrow> w2\<lparr> unhandledRejections := unhandledRejections w2 @ [e] \<rparr>
            | (Inr u, w2) \<Rightarrow> w2)"
  using assms by (simp add: monitorApplications_def split: prod.splits sum.splits)

lemma digit_not_in_report:
  assumes "c \<notin> set report" "c \<in> set (numberToString n)"
  shows "\<not> namesNumber n report"
  using assms by (auto simp: namesNumber_def)

text \<open>
  Claim C6 as stated fails: on a tick that evaluates three services and reports two, the
  report names neither 3 nor 2, and the line of the added property is not of the claimed
  shape.
\<close>

theorem report_names_no_total_counterexample:
  "length (filter is_monitor_application_active (monitor_applications mixedWorld)) = 3 \<and>
   delivered (monitorApplications exampleEnvironment False mixedWorld) =
     [reportMessage ''monitor.local'' mixedBuckets] \<and>
   \<not> namesNumber 3 (reportMessage ''monitor.local'' mixedBuckets) \<and>
   \<not> namesNumber 2 (reportMessage ''monitor.local'' mixedBuckets) \<and>
   propertyLine displayExample ''+'' [] (countProperty 7) \<noteq>
     Inr (''\<newline>'' @ claimedPropertyLine ''+'' ''Count'' ''7'')"
proof -
  have n: "length (filter is_monitor_application_active (monitor_applications mixedWorld)) = 3"
    by (simp add: mixedWorld_def exampleService_def quietService_def)
  have d: "delivered (monitorApplications exampleEnvironment False mixedWorld) =
      [reportMessage ''monitor.local'' mixedBuckets]"
  proof -
    have e: "SERVER_IP exampleEnvironment = ''monitor.local''"
        "accepts exampleEnvironment = (\<lambda>message. True)"
      by (simp_all add: exampleEnvironment_def)
    have b: "serviceOnlineMessageList mixedBuckets \<noteq> []" by (simp add: mixedBuckets_def)
    show ?thesis
      unfolding monitorApplications_run [OF mixed_run] mixed_buckets
      using e b
      by (simp add: sendApplicationMonitoringReport_def mixedWorld_def exampleWorld_def)
  qed
  have chars: "CHR ''3'' \<notin> set (reportMessage ''monitor.local'' mixedBuckets)"
      "CHR ''2'' \<notin> set (reportMessage ''monitor.local'' mixedBuckets)"
    by (simp_all add: reportMessage_def mixedBuckets_def join_empty_separator
        numberToString_digit digit_char_def pushpin_def highVoltage_def zzz_def upButton_def
        counterclockwise_def downButton_def globe_def cCedilla_def)
  have three: "\<not> namesNumber 3 (reportMessage ''monitor.local'' mixedBuckets)"
    by (rule digit_not_in_report [OF chars(1)]) (simp add: numberToString_digit digit_char_def)
  have two: "\<not> namesNumber 2 (reportMessage ''monitor.local'' mixedBuckets)"
    by (rule digit_not_in_report [OF chars(2)]) (simp add: numberToString_digit digit_char_def)
  have line: "propertyLine displayExample ''+'' [] (countProperty 7) \<noteq>
      Inr (''\<newline>'' @ claimedPropertyLine ''+'' ''Count'' ''7'')"
    by (simp add: propertyLine_def claimedPropertyLine_def countProperty_def integerToString_def
        numberToString_digit digit_char_def)
  from n d three two line show ?thesis by simp
qed

text \<open>
  C6 at the lists of the same tick: all five sections, in order.
\<close>

theorem report_has_fixed_shape_witness:
  "reportMessage ''monitor.local'' mixedBuckets =
     reportTitle @
     renderSection (highVoltage, ''SERVI'' @ cCedilla @ ''O ONLINE'', serviceOnlineMessageList mixedBuckets) @
     renderSection (zzz, ''SERVI'' @ cCedilla @ ''O OFFLINE'', serviceOfflineMessageList mixedBuckets) @
     renderSection (upButton, ''PROP. ADICIONADA'', propertyAddedMessageList mixedBuckets) @
     renderSection (counterclockwise, ''PROP. MODIFICADA'', propertyModifiedMessageList mixedBuckets) @
     renderSection (downButton, ''PROP. REMOVIDA'', propertyRemovedMessageList mixedBuckets) @
     reportFooter ''monitor.local''"
  using report_has_fixed_shape [of "''monitor.local''" mixedBuckets]
  by (simp add: reportShape_def sectionsInOrder_def mixedBuckets_def)

end
